theory Spec2Isabelle
  imports Complex_Main "HOL-Library.AList"
begin

section \<open>Configuration (ezan.go, type Config and the global config)\<close>

text \<open>
  The Go struct \<^verbatim>\<open>Config\<close> with its nested, anonymous \<^verbatim>\<open>Volume\<close> struct.
  Go's \<^verbatim>\<open>float64\<close> fields are idealised as \<^typ>\<open>real\<close>: rounding is not modelled.
  The fields of the nested struct carry the prefix \<open>Volume_\<close>, so that
  \<^verbatim>\<open>config.Volume.Fajr\<close> reads \<open>Volume_Fajr (Volume config)\<close>.
\<close>

record Volume =
  Volume_Fajr :: real
  Volume_Dhuhr :: real
  Volume_Asr :: real
  Volume_Maghrib :: real
  Volume_Isha :: real
  Volume_AdhanPrayer :: real
  Volume_Sela :: real

record Config =
  Lan :: real
  Lon :: real
  CalculationMethod :: string
  AdhanPrayer :: bool
  Volume :: Volume

text \<open>\<^verbatim>\<open>getVolumeForPrayer\<close>: the switch on the prayer type, with its default branch.\<close>

definition getVolumeForPrayer :: "Config \<Rightarrow> string \<Rightarrow> real" where
  "getVolumeForPrayer config prayerType =
     (if prayerType = ''fajr'' then Volume_Fajr (Volume config)
      else if prayerType = ''dhuhr'' then Volume_Dhuhr (Volume config)
      else if prayerType = ''asr'' then Volume_Asr (Volume config)
      else if prayerType = ''maghrib'' then Volume_Maghrib (Volume config)
      else if prayerType = ''isha'' then Volume_Isha (Volume config)
      else if prayerType = ''prayer'' then Volume_AdhanPrayer (Volume config)
      else if prayerType = ''sela'' then Volume_Sela (Volume config)
      else 100)"

text \<open>\<^verbatim>\<open>audioFiles\<close>: the map from names to paths. Reading a missing key of a Go map
  gives the zero value, the empty string.\<close>

definition audioFiles_table :: "(string \<times> string) list" where
  "audioFiles_table =
     [(''fajr'', ''audio/ezan1.mp3''),
      (''dhuhr'', ''audio/ezan2.mp3''),
      (''asr'', ''audio/ezan3.mp3''),
      (''maghrib'', ''audio/ezan4.mp3''),
      (''isha'', ''audio/ezan5.mp3''),
      (''test'', ''audio/test.mp3''),
      (''prayer'', ''audio/prayer.mp3''),
      (''sela'', ''audio/sela.mp3'')]"

definition audioFiles :: "string \<Rightarrow> string" where
  "audioFiles name = (case map_of audioFiles_table name of Some p \<Rightarrow> p | None \<Rightarrow> [])"

section \<open>Volume adjustment (ezan.go, playAudio, lines 104 to 113)\<close>

text \<open>
  The exponent handed to the volume effect:
  \<^verbatim>\<open>Volume: -4 + (volume / 100.0 * 4)\<close>, with \<^verbatim>\<open>Base: 2\<close>.
\<close>

definition volumeBase :: real where
  "volumeBase = 2"

definition volumeExponent :: "real \<Rightarrow> real" where
  "volumeExponent volume = -4 + (volume / 100 * 4)"

text \<open>
  Modelled from the spec: the effect \<^verbatim>\<open>effects.Volume\<close> belongs to the audio library
  and is not under src/. The spec describes a logarithmic gain curve with unity gain at
  the top; the library multiplies every sample of both channels by
  \<^verbatim>\<open>math.Pow(Base, Volume)\<close>, and by 0 when \<^verbatim>\<open>Silent\<close> is set.
\<close>

definition effects_Volume_gain :: "real \<Rightarrow> real \<Rightarrow> bool \<Rightarrow> real" where
  "effects_Volume_gain base vol silent = (if silent then 0 else base powr vol)"

definition effects_Volume_Stream ::
  "real \<Rightarrow> real \<Rightarrow> bool \<Rightarrow> (real \<times> real) list \<Rightarrow> (real \<times> real) list" where
  "effects_Volume_Stream base vol silent samples =
     map (\<lambda>(l, r). (l * effects_Volume_gain base vol silent,
                     r * effects_Volume_gain base vol silent)) samples"

text \<open>The amplitude multiplier \<^verbatim>\<open>playAudio\<close> applies at a volume percentage
  (\<^verbatim>\<open>Silent\<close> is left at its zero value, false).\<close>

definition playAudio_gain :: "real \<Rightarrow> real" where
  "playAudio_gain volume = effects_Volume_gain volumeBase (volumeExponent volume) False"

section \<open>Clock times, prayer times and calculation methods\<close>

text \<open>
  A \<^verbatim>\<open>time.Time\<close> is taken as the number of seconds on the local clock since a fixed
  local midnight. \<^verbatim>\<open>Format("15:04:05")\<close> renders the time of day with two digits each.
\<close>

type_synonym Time = nat

definition digit2 :: "nat \<Rightarrow> string" where
  "digit2 n = [''0123456789'' ! ((n div 10) mod 10), ''0123456789'' ! (n mod 10)]"

definition Format_150405 :: "Time \<Rightarrow> string" where
  "Format_150405 t =
     digit2 ((t div 3600) mod 24) @ '':'' @ digit2 ((t div 60) mod 60) @ '':'' @ digit2 (t mod 60)"

definition data_NewDateComponents :: "Time \<Rightarrow> nat" where
  "data_NewDateComponents t = t div 86400"

text \<open>The fields of the library's \<^verbatim>\<open>PrayerTimes\<close> that the program reads.\<close>

record PrayerTimes =
  Fajr :: Time
  Dhuhr :: Time
  Asr :: Time
  Maghrib :: Time
  Isha :: Time

record Coordinates =
  Latitude :: real
  Longitude :: real

datatype calc_Madhab = SHAFI_HANBALI_MALIKI | HANAFI

datatype calc_CalculationMethod =
  OTHER | MUSLIM_WORLD_LEAGUE | TURKEY | EGYPTIAN | KARACHI | UMM_AL_QURA | DUBAI
  | MOON_SIGHTING_COMMITTEE | NORTH_AMERICA | KUWAIT | QATAR | SINGAPORE | UOIF

record CalculationParameters =
  params_Madhab :: calc_Madhab
  params_Method :: calc_CalculationMethod

definition madhab :: calc_Madhab where
  "madhab = SHAFI_HANBALI_MALIKI"

section \<open>Observable events\<close>

text \<open>
  Everything the program prints, logs or sends to the speaker is recorded in order, one
  constructor for each print and log statement of the source, with its arguments.
  \<open>Go_RouterRun\<close> and \<open>Call_StartBlocking\<close> record the two calls of \<^verbatim>\<open>main\<close> that start
  the HTTP server and enter the scheduler's run loop.
\<close>

datatype PlayError = ErrOpeningAudioFile | ErrDecodingMP3 | ErrInitializingSpeaker

datatype Event =
  Print_Scheduling string Time
  | Print_Playing string Time
  | Print_PlayingPrayerAfter string
  | Print_TodaysPrayerTimes PrayerTimes
  | Log_ErrorPlaying string PlayError
  | Log_ErrorPlayingPrayerAfter string PlayError
  | Log_ErrorCalculating string
  | Log_ErrorSettingTimezone string
  | Log_UnknownCalculationMethod string
  | Log_FailedToReloadConfig string
  | Log_FailedToUpdateCoordinates string
  | Speaker_Play "(real \<times> real) list"
  | Go_RouterRun
  | Call_StartBlocking

text \<open>\<^verbatim>\<open>getCalculationMethod\<close>: the method for a name, and what the default branch logs.\<close>

definition getCalculationMethod :: "string \<Rightarrow> calc_CalculationMethod \<times> Event list" where
  "getCalculationMethod methodStr =
     (if methodStr = ''OTHER'' then (OTHER, [])
      else if methodStr = ''MUSLIM_WORLD_LEAGUE'' then (MUSLIM_WORLD_LEAGUE, [])
      else if methodStr = ''TURKEY'' then (TURKEY, [])
      else if methodStr = ''EGYPTIAN'' then (EGYPTIAN, [])
      else if methodStr = ''KARACHI'' then (KARACHI, [])
      else if methodStr = ''UMM_AL_QURA'' then (UMM_AL_QURA, [])
      else if methodStr = ''DUBAI'' then (DUBAI, [])
      else if methodStr = ''MOON_SIGHTING_COMMITTEE'' then (MOON_SIGHTING_COMMITTEE, [])
      else if methodStr = ''NORTH_AMERICA'' then (NORTH_AMERICA, [])
      else if methodStr = ''KUWAIT'' then (KUWAIT, [])
      else if methodStr = ''QATAR'' then (QATAR, [])
      else if methodStr = ''SINGAPORE'' then (SINGAPORE, [])
      else if methodStr = ''UOIF'' then (UOIF, [])
      else (TURKEY, [Log_UnknownCalculationMethod methodStr]))"

section \<open>The scheduler\<close>

text \<open>
  Modelled from the spec: the scheduling library is not under src/. The spec has a set of
  jobs, each with a trigger time, a tag and a run limit, removed as a group by their tag.
  The builder calls are modelled as the source uses them: \<^verbatim>\<open>Every(n)\<close> starts a job,
  \<^verbatim>\<open>Day\<close>, \<^verbatim>\<open>LimitRunsTo\<close>, \<^verbatim>\<open>At\<close> and \<^verbatim>\<open>Tag\<close> set its fields, \<^verbatim>\<open>Do\<close> registers it
  with its function, and \<^verbatim>\<open>RemoveByTag\<close> drops every registered job that carries the tag. The two closures the program registers are the
  two constructors of \<open>JobFunc\<close>, with the variables they capture.
\<close>

datatype JobFunc = UpdateFunc | AdhanFunc string Time

datatype JobUnit = Seconds | Days

record Job =
  jobInterval :: nat
  jobUnit :: JobUnit
  jobRunLimit :: "nat option"
  jobAt :: "string list"
  jobTags :: "string list"
  jobFunc :: "JobFunc option"

definition gocron_Every :: "nat \<Rightarrow> Job" where
  "gocron_Every n = \<lparr>jobInterval = n, jobUnit = Seconds, jobRunLimit = None, jobAt = [],
     jobTags = [], jobFunc = None\<rparr>"

definition gocron_Day :: "Job \<Rightarrow> Job" where
  "gocron_Day j = j\<lparr>jobUnit := Days\<rparr>"

definition gocron_LimitRunsTo :: "nat \<Rightarrow> Job \<Rightarrow> Job" where
  "gocron_LimitRunsTo n j = j\<lparr>jobRunLimit := Some n\<rparr>"

definition gocron_At :: "string \<Rightarrow> Job \<Rightarrow> Job" where
  "gocron_At t j = j\<lparr>jobAt := jobAt j @ [t]\<rparr>"

definition gocron_Tag :: "string \<Rightarrow> Job \<Rightarrow> Job" where
  "gocron_Tag t j = j\<lparr>jobTags := jobTags j @ [t]\<rparr>"

definition gocron_Do :: "JobFunc \<Rightarrow> Job \<Rightarrow> Job list \<Rightarrow> Job list" where
  "gocron_Do f j jobs = jobs @ [j\<lparr>jobFunc := Some f\<rparr>]"

definition gocron_RemoveByTag :: "string \<Rightarrow> Job list \<Rightarrow> Job list" where
  "gocron_RemoveByTag tag jobs = filter (\<lambda>j. tag \<notin> set (jobTags j)) jobs"

text \<open>The jobs of the daily group: those tagged adhan.\<close>

definition adhanJobs :: "Job list \<Rightarrow> Job list" where
  "adhanJobs jobs = filter (\<lambda>j. ''adhan'' \<in> set (jobTags j)) jobs"

section \<open>Documents of the settings store and of the update request\<close>

text \<open>
  A value of Go's \<^verbatim>\<open>interface{}\<close> as the JSON and TOML decoders produce it. A
  \<^verbatim>\<open>map[string]interface{}\<close> is an association list with one entry for each key.
\<close>

datatype Value =
  VNull
  | VBool bool
  | VNumber real
  | VString string
  | VArray "Value list"
  | VObject "(string \<times> Value) list"

type_synonym Document = "(string \<times> Value) list"

section \<open>The environment and the state of the process\<close>

text \<open>
  The collaborators that are not under src/ (the prayer time library, the TOML and JSON
  decoders, the file system, the MP3 decoder and the speaker) are parameters: an \<open>Env\<close>
  gives the result of each of their calls. A call that assigns through a pointer returns
  the value it leaves there: \<^verbatim>\<open>toml.DecodeFile("config.toml", &config)\<close> gets the old
  \<^verbatim>\<open>config\<close> and returns the new one beside its error, and \<^verbatim>\<open>util.NewCoordinates\<close>
  returns its pointer (\<open>None\<close> for nil) beside its error.
\<close>

record Env =
  time_Now :: Time
  time_Location :: string
  os_Open :: "string \<Rightarrow> bool"
  mp3_Decode :: "string \<Rightarrow> (real \<times> real) list option"
  speaker_Init :: "string \<Rightarrow> bool"
  calc_NewPrayerTimes ::
    "Coordinates option \<Rightarrow> nat \<Rightarrow> CalculationParameters \<Rightarrow> string + PrayerTimes"
  SetTimeZone :: "PrayerTimes \<Rightarrow> string \<Rightarrow> string + PrayerTimes"
  util_NewCoordinates :: "real \<Rightarrow> real \<Rightarrow> Coordinates option \<times> string option"
  toml_DecodeFile :: "string option \<Rightarrow> Config \<Rightarrow> Config \<times> string option"
  gin_BindJSON :: "string \<Rightarrow> string + Document"
  toml_Decode :: "string \<Rightarrow> string + Document"
  os_Create :: bool
  toml_Encode :: "Document \<Rightarrow> string \<times> string option"

text \<open>
  The globals \<^verbatim>\<open>config\<close>, \<^verbatim>\<open>coordinates\<close> and \<^verbatim>\<open>scheduler\<close>, the contents of the
  file config.toml (\<open>None\<close> when it cannot be read), and the events so far.
\<close>

record World =
  config :: Config
  coordinates :: "Coordinates option"
  scheduler :: "Job list"
  configFile :: "string option"
  trace :: "Event list"

definition emit :: "Event list \<Rightarrow> World \<Rightarrow> World" where
  "emit es w = w\<lparr>trace := trace w @ es\<rparr>"

section \<open>Playback (ezan.go, playAudio and the job of scheduleAdhan)\<close>

definition playAudio :: "Env \<Rightarrow> string \<Rightarrow> string \<Rightarrow> World \<Rightarrow> World \<times> PlayError option" where
  "playAudio env filepath audioType w =
     (if \<not> os_Open env filepath then (w, Some ErrOpeningAudioFile)
      else case mp3_Decode env filepath of
        None \<Rightarrow> (w, Some ErrDecodingMP3)
      | Some streamer \<Rightarrow>
          if \<not> speaker_Init env filepath then (w, Some ErrInitializingSpeaker)
          else
            let volume = getVolumeForPrayer (config w) audioType;
                volumeAdjusted =
                  effects_Volume_Stream volumeBase (volumeExponent volume) False streamer
            in (emit [Speaker_Play volumeAdjusted] w, None))"

text \<open>The function that \<^verbatim>\<open>scheduleAdhan\<close> registers, with the name and the time it captures.\<close>

definition scheduleAdhan_job :: "Env \<Rightarrow> string \<Rightarrow> Time \<Rightarrow> World \<Rightarrow> World" where
  "scheduleAdhan_job env prayerName prayerTime w =
     (case playAudio env (audioFiles prayerName) prayerName
             (emit [Print_Playing prayerName prayerTime] w) of
        (w1, Some err) \<Rightarrow> emit [Log_ErrorPlaying prayerName err] w1
      | (w1, None) \<Rightarrow>
          if prayerName \<noteq> ''test'' \<and> AdhanPrayer (config w1) then
            (case playAudio env (audioFiles ''prayer'') ''prayer''
                    (emit [Print_PlayingPrayerAfter prayerName] w1) of
               (w2, Some err) \<Rightarrow> emit [Log_ErrorPlayingPrayerAfter prayerName err] w2
             | (w2, None) \<Rightarrow> w2)
          else w1)"

section \<open>Scheduling (ezan.go, scheduleAdhan and updatePrayerTimes)\<close>

definition scheduleAdhan :: "string \<Rightarrow> Time \<Rightarrow> World \<Rightarrow> World" where
  "scheduleAdhan prayerName prayerTime w =
     (let w1 = emit [Print_Scheduling prayerName prayerTime] w;
          job = gocron_Tag ''adhan'' (gocron_At (Format_150405 prayerTime)
                  (gocron_LimitRunsTo 1 (gocron_Day (gocron_Every 1))))
      in w1\<lparr>scheduler := gocron_Do (AdhanFunc prayerName prayerTime) job (scheduler w1)\<rparr>)"

text \<open>
  \<^verbatim>\<open>updatePrayerTimes\<close> hands the global \<^verbatim>\<open>coordinates\<close> to the library as it is. The
  result of that call is a parameter with two outcomes, an error or the prayer times. A
  nil pointer, which ends the Go process inside the library, is not a third outcome
  here: a hypothesis that the call returned an error or prayer times excludes it, and
  the properties of the start and of the settings endpoint name coordinates that are
  not nil.
\<close>

definition updatePrayerTimes :: "Env \<Rightarrow> World \<Rightarrow> World" where
  "updatePrayerTimes env w =
     (let currentDate = time_Now env;
          date = data_NewDateComponents currentDate;
          (method, logged) = getCalculationMethod (CalculationMethod (config w));
          w1 = emit logged w;
          params = \<lparr>params_Madhab = madhab, params_Method = method\<rparr>
      in case calc_NewPrayerTimes env (coordinates w1) date params of
        Inl err \<Rightarrow> emit [Log_ErrorCalculating err] w1
      | Inr computed \<Rightarrow>
          (case SetTimeZone env computed (time_Location env) of
             Inl err \<Rightarrow> emit [Log_ErrorSettingTimezone err] w1
           | Inr prayerTimes \<Rightarrow>
               let w2 = emit [Print_TodaysPrayerTimes prayerTimes] w1;
                   w3 = w2\<lparr>scheduler := gocron_RemoveByTag ''adhan'' (scheduler w2)\<rparr>;
                   w4 = scheduleAdhan ''fajr'' (Fajr prayerTimes) w3;
                   w5 = scheduleAdhan ''dhuhr'' (Dhuhr prayerTimes) w4;
                   w6 = scheduleAdhan ''asr'' (Asr prayerTimes) w5;
                   w7 = scheduleAdhan ''maghrib'' (Maghrib prayerTimes) w6
               in scheduleAdhan ''isha'' (Isha prayerTimes) w7))"

section \<open>Reload (ezan.go, loadConfig and onUpdateSettings)\<close>

definition loadConfig :: "Env \<Rightarrow> World \<Rightarrow> World \<times> string option" where
  "loadConfig env w =
     (case toml_DecodeFile env (configFile w) (config w) of
        (decoded, Some err) \<Rightarrow> (w\<lparr>config := decoded\<rparr>, Some (''error loading config: '' @ err))
      | (decoded, None) \<Rightarrow> (w\<lparr>config := decoded\<rparr>, None))"

definition onUpdateSettings :: "Env \<Rightarrow> World \<Rightarrow> World" where
  "onUpdateSettings env w =
     (case loadConfig env w of
        (w1, Some err) \<Rightarrow> emit [Log_FailedToReloadConfig err] w1
      | (w1, None) \<Rightarrow>
          (case util_NewCoordinates env (Lan (config w1)) (Lon (config w1)) of
             (c, Some err) \<Rightarrow>
               emit [Log_FailedToUpdateCoordinates err] (w1\<lparr>coordinates := c\<rparr>)
           | (c, None) \<Rightarrow>
               let w2 = w1\<lparr>coordinates := c\<rparr>;
                   w3 = w2\<lparr>scheduler := gocron_RemoveByTag ''adhan'' (scheduler w2)\<rparr>
               in updatePrayerTimes env w3))"

text \<open>What the scheduler runs when a job fires: the function the job was registered with.\<close>

definition runJobFunc :: "Env \<Rightarrow> JobFunc \<Rightarrow> World \<Rightarrow> World" where
  "runJobFunc env f w =
     (case f of
        UpdateFunc \<Rightarrow> updatePrayerTimes env w
      | AdhanFunc prayerName prayerTime \<Rightarrow> scheduleAdhan_job env prayerName prayerTime w)"

section \<open>The settings endpoint (ezan.go, updateSettingsHandler)\<close>

text \<open>\<^verbatim>\<open>c.JSON(code, gin.H{key: text})\<close>: the status code and the one entry of the body.\<close>

datatype Response = JSON nat string string

text \<open>
  The loop over the updates. Assigning \<^verbatim>\<open>m[k] = v\<close> replaces the entry of \<open>k\<close> or adds
  one. The inner loop writes into the map stored under volume, which the document shares,
  so the document holds the merged map afterwards.
\<close>

definition mergeVolume :: "Document \<Rightarrow> Document \<Rightarrow> Document" where
  "mergeVolume volumeUpdates currentVolume =
     fold (\<lambda>(k, v) m. AList.update k v m) volumeUpdates currentVolume"

definition applyUpdate :: "string \<times> Value \<Rightarrow> Document \<Rightarrow> Document" where
  "applyUpdate kv currentConfig =
     (case kv of (key, val) \<Rightarrow>
        if key = ''volume'' then
          (case val of
             VObject volumeUpdates \<Rightarrow>
               (case map_of currentConfig ''volume'' of
                  Some (VObject currentVolume) \<Rightarrow>
                    AList.update ''volume''
                      (VObject (mergeVolume volumeUpdates currentVolume)) currentConfig
                | _ \<Rightarrow> currentConfig)
           | _ \<Rightarrow> currentConfig)
        else AList.update key val currentConfig)"

definition mergeUpdates :: "Document \<Rightarrow> Document \<Rightarrow> Document" where
  "mergeUpdates updates currentConfig = fold applyUpdate updates currentConfig"

definition updateSettingsHandler :: "Env \<Rightarrow> string \<Rightarrow> World \<Rightarrow> World \<times> Response" where
  "updateSettingsHandler env body w =
     (case gin_BindJSON env body of
        Inl err \<Rightarrow> (w, JSON 400 ''error'' ''Invalid JSON format'')
      | Inr updates \<Rightarrow>
          (case configFile w of
             None \<Rightarrow> (w, JSON 500 ''error'' ''Failed to read config file'')
           | Some configBytes \<Rightarrow>
               (case toml_Decode env configBytes of
                  Inl err \<Rightarrow> (w, JSON 500 ''error'' ''Failed to parse config file'')
                | Inr currentConfig \<Rightarrow>
                    let merged = mergeUpdates updates currentConfig
                    in if \<not> os_Create env
                       then (w, JSON 500 ''error'' ''Failed to open config file for writing'')
                       else
                         (case toml_Encode env merged of
                            (written, Some err) \<Rightarrow>
                              (w\<lparr>configFile := Some written\<rparr>,
                               JSON 500 ''error'' ''Failed to write config file'')
                          | (written, None) \<Rightarrow>
                              (onUpdateSettings env (w\<lparr>configFile := Some written\<rparr>),
                               JSON 200 ''message'' ''Settings updated successfully'')))))"

section \<open>Start of the process (ezan.go, main)\<close>

text \<open>
  \<^verbatim>\<open>log.Fatalf\<close> ends the process: \<open>Inl\<close>. Otherwise \<^verbatim>\<open>main\<close> reaches
  \<^verbatim>\<open>scheduler.StartBlocking()\<close>, and the result is the state in which that call is made.
  The requests that the HTTP server, started in its own goroutine, may serve meanwhile
  are not part of this sequential model.
\<close>

datatype Exit = Fatal_FailedToLoadConfig string | Fatal_FailedToInitializeCoordinates string

definition midnightJob :: Job where
  "midnightJob = (gocron_At ''00:00'' (gocron_Day (gocron_Every 1)))\<lparr>jobFunc := Some UpdateFunc\<rparr>"

definition main :: "Env \<Rightarrow> World \<Rightarrow> Exit + World" where
  "main env w =
     (case loadConfig env w of
        (w1, Some err) \<Rightarrow> Inl (Fatal_FailedToLoadConfig err)
      | (w1, None) \<Rightarrow>
          let w2 = emit [Go_RouterRun] w1
          in (case util_NewCoordinates env (Lan (config w2)) (Lon (config w2)) of
                (c, Some err) \<Rightarrow> Inl (Fatal_FailedToInitializeCoordinates err)
              | (c, None) \<Rightarrow>
                  let w3 = w2\<lparr>coordinates := c\<rparr>;
                      w4 = w3\<lparr>scheduler :=
                             gocron_Do UpdateFunc (gocron_At ''00:00'' (gocron_Day (gocron_Every 1)))
                               (scheduler w3)\<rparr>;
                      w5 = updatePrayerTimes env w4
                  in Inr (emit [Call_StartBlocking] w5)))"

text \<open>The events that end a call of \<^verbatim>\<open>updatePrayerTimes\<close>: each call emits exactly one.\<close>

fun rebuildOutcome :: "Event \<Rightarrow> bool" where
  "rebuildOutcome (Log_ErrorCalculating e) = True"
| "rebuildOutcome (Log_ErrorSettingTimezone e) = True"
| "rebuildOutcome (Print_TodaysPrayerTimes p) = True"
| "rebuildOutcome e = False"

section \<open>Sample inputs\<close>

text \<open>Concrete values, used to run the definitions.\<close>

definition sampleVolume :: Volume where
  "sampleVolume = \<lparr>Volume_Fajr = 50, Volume_Dhuhr = 75, Volume_Asr = 75,
     Volume_Maghrib = 100, Volume_Isha = 50, Volume_AdhanPrayer = 75, Volume_Sela = 100\<rparr>"

definition sampleConfig :: Config where
  "sampleConfig = \<lparr>Lan = 52.52, Lon = 13.405, CalculationMethod = ''TURKEY'',
     AdhanPrayer = True, Volume = sampleVolume\<rparr>"

definition samplePrayerTimes :: PrayerTimes where
  "samplePrayerTimes = \<lparr>Fajr = 18750, Dhuhr = 43740, Asr = 54125, Maghrib = 64860,
     Isha = 70439\<rparr>"

definition sampleDocument :: Document where
  "sampleDocument =
     [(''lan'', VNumber 52.52), (''lon'', VNumber 13.405),
      (''calculation_method'', VString ''TURKEY''), (''adhan_prayer'', VBool True),
      (''volume'', VObject [(''fajr'', VNumber 50), (''isha'', VNumber 50)])]"

definition sampleUpdates :: Document where
  "sampleUpdates =
     [(''volume'', VObject [(''fajr'', VNumber 0), (''sela'', VNumber 20)]),
      (''adhan_prayer'', VBool False)]"

definition sampleEnv :: Env where
  "sampleEnv = \<lparr>time_Now = 0, time_Location = ''Local'',
     os_Open = (\<lambda>p. True),
     mp3_Decode = (\<lambda>p. Some [(1 / 2, - 1 / 4)]),
     speaker_Init = (\<lambda>p. True),
     calc_NewPrayerTimes = (\<lambda>c d p. Inr samplePrayerTimes),
     SetTimeZone = (\<lambda>p z. Inr p),
     util_NewCoordinates = (\<lambda>lat lon. (Some \<lparr>Latitude = lat, Longitude = lon\<rparr>, None)),
     toml_DecodeFile = (\<lambda>f c. (c, None)),
     gin_BindJSON = (\<lambda>b. if b = ''{'' then Inl ''unexpected EOF'' else Inr sampleUpdates),
     toml_Decode = (\<lambda>b. Inr sampleDocument),
     os_Create = True,
     toml_Encode = (\<lambda>d. (''written'', None))\<rparr>"

definition staleJob :: Job where
  "staleJob = \<lparr>jobInterval = 1, jobUnit = Days, jobRunLimit = Some 1, jobAt = [''23:59:59''],
     jobTags = [''adhan''], jobFunc = Some (AdhanFunc ''isha'' 86399)\<rparr>"

definition sampleWorld :: World where
  "sampleWorld = \<lparr>config = sampleConfig,
     coordinates = Some \<lparr>Latitude = 52.52, Longitude = 13.405\<rparr>,
     scheduler = [midnightJob, staleJob], configFile = Some ''stored'', trace = []\<rparr>"

text \<open>A state with the five jobs of a day armed: the sample state after one rebuild.\<close>

definition armedWorld :: World where
  "armedWorld = updatePrayerTimes sampleEnv sampleWorld"

text \<open>
  An environment in which the stored latitude has been set to 89.5 and the prayer time
  computation fails for latitudes beyond 80 degrees.
\<close>

definition polarEnv :: Env where
  "polarEnv = sampleEnv\<lparr>
     toml_DecodeFile := (\<lambda>f c. (c\<lparr>Lan := 89.5\<rparr>, None)),
     calc_NewPrayerTimes := (\<lambda>c d p.
       case c of
         None \<Rightarrow> Inl ''no coordinates''
       | Some co \<Rightarrow> if 80 < \<bar>Latitude co\<bar> then Inl ''no sunrise'' else Inr samplePrayerTimes)\<rparr>"

definition polarWorld :: World where
  "polarWorld = armedWorld\<lparr>coordinates := Some \<lparr>Latitude = 89.5, Longitude = 13.405\<rparr>\<rparr>"

text \<open>An environment in which no audio file can be opened.\<close>

definition muteEnv :: Env where
  "muteEnv = sampleEnv\<lparr>os_Open := (\<lambda>p. False)\<rparr>"

text \<open>
  An environment in which the update sets lan to 10 and lon to the string east: the
  decoder has stored the latitude in the struct when it fails on the longitude.
\<close>

definition tornEnv :: Env where
  "tornEnv = sampleEnv\<lparr>
     gin_BindJSON := (\<lambda>b. Inr [(''lan'', VNumber 10), (''lon'', VString ''east'')]),
     toml_DecodeFile := (\<lambda>f c. (c\<lparr>Lan := 10\<rparr>, Some ''incompatible types''))\<rparr>"

text \<open>The state at the start of the process, and an environment whose settings file
  holds the sample configuration.\<close>

definition zeroConfig :: Config where
  "zeroConfig = \<lparr>Lan = 0, Lon = 0, CalculationMethod = [], AdhanPrayer = False,
     Volume = \<lparr>Volume_Fajr = 0, Volume_Dhuhr = 0, Volume_Asr = 0, Volume_Maghrib = 0,
       Volume_Isha = 0, Volume_AdhanPrayer = 0, Volume_Sela = 0\<rparr>\<rparr>"

definition startWorld :: World where
  "startWorld = \<lparr>config = zeroConfig, coordinates = None, scheduler = [],
     configFile = Some ''stored'', trace = []\<rparr>"

definition bootEnv :: Env where
  "bootEnv = sampleEnv\<lparr>toml_DecodeFile := (\<lambda>f c. (sampleConfig, None))\<rparr>"

text \<open>
  An environment in which the update stores the string yes under adhan_prayer, so that
  the decoder fails on the written file without having stored anything.
\<close>

definition garbledEnv :: Env where
  "garbledEnv = sampleEnv\<lparr>
     gin_BindJSON := (\<lambda>b. Inr [(''adhan_prayer'', VString ''yes'')]),
     toml_DecodeFile := (\<lambda>f c. (c, Some ''incompatible types''))\<rparr>"

text \<open>An environment in which the written file decodes with the flag switched off.\<close>

definition reloadEnv :: Env where
  "reloadEnv = sampleEnv\<lparr>
     toml_DecodeFile := (\<lambda>f c. if f = Some ''written'' then (c\<lparr>AdhanPrayer := False\<rparr>, None)
                               else (c, None))\<rparr>"

text \<open>A start of the process with a stored latitude of 89.5, where the computation fails.\<close>

definition polarBootEnv :: Env where
  "polarBootEnv = polarEnv\<lparr>toml_DecodeFile := (\<lambda>f c. (sampleConfig\<lparr>Lan := 89.5\<rparr>, None))\<rparr>"

section \<open>Properties of the volume lookup and of the gain\<close>

lemma playAudio_gain_eq: "playAudio_gain v = 2 powr (v / 25 - 4)"
  by (simp add: playAudio_gain_def effects_Volume_gain_def volumeBase_def volumeExponent_def)

lemma playAudio_gain_pos: "0 < playAudio_gain v"
  by (simp add: playAudio_gain_eq)

lemma playAudio_gain_full: "playAudio_gain 100 = 1"
  by (simp add: playAudio_gain_eq)

lemma playAudio_gain_zero: "playAudio_gain 0 = 1 / 16"
  by (simp add: playAudio_gain_eq powr_neg_numeral)

text \<open>
  C10. For every name that is not one of the seven configured names fajr, dhuhr, asr,
  maghrib, isha, prayer and sela (the name test and every unknown name among them), the
  volume lookup returns the default 100.
\<close>

theorem getVolumeForPrayer_default:
  "prayerType \<notin> {''fajr'', ''dhuhr'', ''asr'', ''maghrib'', ''isha'', ''prayer'', ''sela''}
   \<Longrightarrow> getVolumeForPrayer cfg prayerType = 100"
  by (simp add: getVolumeForPrayer_def)

theorem getVolumeForPrayer_default_witness:
  "''test'' \<notin> {''fajr'', ''dhuhr'', ''asr'', ''maghrib'', ''isha'', ''prayer'', ''sela''}
   \<and> getVolumeForPrayer sampleConfig ''test'' = 100"
  using getVolumeForPrayer_default [of "''test''" sampleConfig] by simp

text \<open>
  C5. The gain is monotone: for volume percentages v1 < v2 in the range 0 to 100, the
  multiplier at v1 is at most the multiplier at v2, and so is the magnitude of every
  rendered sample.
\<close>

theorem playAudio_gain_mono:
  "0 \<le> v1 \<Longrightarrow> v1 < v2 \<Longrightarrow> v2 \<le> 100 \<Longrightarrow>
   playAudio_gain v1 \<le> playAudio_gain v2 \<and>
   (\<forall>s. \<bar>s * playAudio_gain v1\<bar> \<le> \<bar>s * playAudio_gain v2\<bar>)"
proof -
  assume less: "v1 < v2"
  have le: "playAudio_gain v1 \<le> playAudio_gain v2"
    using less by (simp add: playAudio_gain_eq)
  have "\<bar>s * playAudio_gain v1\<bar> \<le> \<bar>s * playAudio_gain v2\<bar>" for s
  proof -
    have "\<bar>s * playAudio_gain v1\<bar> = \<bar>s\<bar> * playAudio_gain v1"
      using playAudio_gain_pos [of v1] by (simp add: abs_mult)
    also have "\<dots> \<le> \<bar>s\<bar> * playAudio_gain v2"
      using le by (simp add: mult_left_mono)
    also have "\<dots> = \<bar>s * playAudio_gain v2\<bar>"
      using playAudio_gain_pos [of v2] by (simp add: abs_mult)
    finally show ?thesis .
  qed
  with le show ?thesis by blast
qed

theorem playAudio_gain_mono_witness:
  "(0::real) \<le> 0 \<and> (0::real) < 100 \<and> (100::real) \<le> 100 \<and>
   playAudio_gain 0 \<le> playAudio_gain 100 \<and>
   \<bar>(- 3) * playAudio_gain 0\<bar> \<le> \<bar>(- 3) * playAudio_gain 100\<bar>"
  using playAudio_gain_mono [of 0 100] by simp

text \<open>
  C6. At volume 100 the gain is 1. At volume 0 the gain is 1/16 (2 to the power -4,
  about -24 dB), which lies far above the -96 dB that the comment in the source
  gives for it: 10 to the power -96/20 is below 1/16.
\<close>

theorem playAudio_gain_endpoints:
  "playAudio_gain 100 = 1 \<and> playAudio_gain 0 = 1 / 16 \<and>
   10 powr (- 96 / 20) < playAudio_gain 0"
proof -
  have "(10::real) powr (- 96 / 20) < 10 powr (- 2)"
    by (subst powr_less_cancel_iff) simp_all
  also have "(10::real) powr (- 2) = 1 / 100"
    by (simp add: powr_neg_numeral)
  finally have "(10::real) powr (- 96 / 20) < 1 / 16"
    by simp
  then show ?thesis
    by (simp add: playAudio_gain_full playAudio_gain_zero)
qed

subsection \<open>Scheduling\<close>

text \<open>The clock string handed to the scheduler determines the time of day to the second.\<close>

lemma digit_inj:
  assumes "i < 10" and "j < 10" and "''0123456789'' ! i = ''0123456789'' ! j"
  shows "i = j"
proof -
  have "distinct ''0123456789''" by simp
  moreover have "i < length ''0123456789''" "j < length ''0123456789''"
    using assms(1,2) by simp_all
  ultimately show ?thesis
    using assms(3) nth_eq_iff_index_eq by blast
qed

lemma digit2_inj:
  assumes "a < 100" and "b < 100" and "digit2 a = digit2 b"
  shows "a = b"
proof -
  from assms(3) have hi: "''0123456789'' ! ((a div 10) mod 10) = ''0123456789'' ! ((b div 10) mod 10)"
    and lo: "''0123456789'' ! (a mod 10) = ''0123456789'' ! (b mod 10)"
    by (simp_all add: digit2_def)
  have "(a div 10) mod 10 = (b div 10) mod 10"
    by (rule digit_inj [OF _ _ hi]) simp_all
  moreover have "a div 10 < 10" "b div 10 < 10"
    using assms(1,2) by simp_all
  ultimately have d: "a div 10 = b div 10"
    by simp
  have m: "a mod 10 = b mod 10"
    by (rule digit_inj [OF _ _ lo]) simp_all
  have "a = 10 * (a div 10) + a mod 10" "b = 10 * (b div 10) + b mod 10"
    by simp_all
  with d m show ?thesis by metis
qed

lemma clock_split:
  "n mod 86400 = 3600 * ((n div 3600) mod 24) + (60 * ((n div 60) mod 60) + n mod 60)"
  for n :: nat
proof -
  have "n mod (3600 * 24) = 3600 * ((n div 3600) mod 24) + n mod 3600"
    by (rule mod_mult2_eq)
  moreover have "n mod (60 * 60) = 60 * ((n div 60) mod 60) + n mod 60"
    by (rule mod_mult2_eq)
  ultimately show ?thesis by simp
qed

lemma Format_150405_inj:
  assumes "Format_150405 t = Format_150405 u"
  shows "t mod 86400 = u mod 86400"
proof -
  have len: "length (digit2 n) = 2" for n
    by (simp add: digit2_def)
  from assms have "digit2 ((t div 3600) mod 24) = digit2 ((u div 3600) mod 24)
      \<and> digit2 ((t div 60) mod 60) = digit2 ((u div 60) mod 60)
      \<and> digit2 (t mod 60) = digit2 (u mod 60)"
    by (simp add: Format_150405_def len)
  then have h: "(t div 3600) mod 24 = (u div 3600) mod 24"
    and m: "(t div 60) mod 60 = (u div 60) mod 60"
    and s: "t mod 60 = u mod 60"
    by (auto intro: digit2_inj)
  show ?thesis
    unfolding clock_split [of t] clock_split [of u] h m s ..
qed


lemma scheduler_emit [simp]: "scheduler (emit es w) = scheduler w"
  by (simp add: emit_def)

lemma config_emit [simp]: "config (emit es w) = config w"
  by (simp add: emit_def)

lemma coordinates_emit [simp]: "coordinates (emit es w) = coordinates w"
  by (simp add: emit_def)

lemma configFile_emit [simp]: "configFile (emit es w) = configFile w"
  by (simp add: emit_def)

lemma trace_emit [simp]: "trace (emit es w) = trace w @ es"
  by (simp add: emit_def)

lemma emit_emit [simp]: "emit es (emit ds w) = emit (ds @ es) w"
  by (simp add: emit_def)

lemma scheduler_scheduleAdhan:
  "scheduler (scheduleAdhan n t w) = scheduler w @
     [\<lparr>jobInterval = 1, jobUnit = Days, jobRunLimit = Some 1, jobAt = [Format_150405 t],
       jobTags = [''adhan''], jobFunc = Some (AdhanFunc n t)\<rparr>]"
  by (simp add: scheduleAdhan_def Let_def gocron_Do_def gocron_Tag_def gocron_At_def
      gocron_LimitRunsTo_def gocron_Day_def gocron_Every_def)

lemma adhanJobs_RemoveByTag: "adhanJobs (gocron_RemoveByTag ''adhan'' js) = []"
  by (induction js) (simp_all add: adhanJobs_def gocron_RemoveByTag_def)

lemma adhanJobs_append: "adhanJobs (xs @ ys) = adhanJobs xs @ adhanJobs ys"
  by (simp add: adhanJobs_def)

lemma midnightJob_untagged: "jobTags midnightJob = []"
  by (simp add: midnightJob_def gocron_At_def gocron_Day_def gocron_Every_def)

lemma scheduler_updatePrayerTimes_success:
  assumes "calc_NewPrayerTimes env (coordinates w) (data_NewDateComponents (time_Now env))
             \<lparr>params_Madhab = madhab,
              params_Method = fst (getCalculationMethod (CalculationMethod (config w)))\<rparr>
           = Inr computed"
    and "SetTimeZone env computed (time_Location env) = Inr pt"
  shows "scheduler (updatePrayerTimes env w) =
     gocron_RemoveByTag ''adhan'' (scheduler w) @
     map (\<lambda>(n, t). \<lparr>jobInterval = 1, jobUnit = Days, jobRunLimit = Some 1,
            jobAt = [Format_150405 t], jobTags = [''adhan''], jobFunc = Some (AdhanFunc n t)\<rparr>)
       [(''fajr'', Fajr pt), (''dhuhr'', Dhuhr pt), (''asr'', Asr pt),
        (''maghrib'', Maghrib pt), (''isha'', Isha pt)]"
  using assms
  by (simp add: updatePrayerTimes_def Let_def split_beta scheduler_scheduleAdhan)

lemma scheduler_updatePrayerTimes_failure:
  assumes "calc_NewPrayerTimes env (coordinates w) (data_NewDateComponents (time_Now env))
             \<lparr>params_Madhab = madhab,
              params_Method = fst (getCalculationMethod (CalculationMethod (config w)))\<rparr>
           = Inl err"
  shows "scheduler (updatePrayerTimes env w) = scheduler w"
  using assms
  by (simp add: updatePrayerTimes_def Let_def split_beta)

lemma scheduler_updatePrayerTimes_timezone_failure:
  assumes "calc_NewPrayerTimes env (coordinates w) (data_NewDateComponents (time_Now env))
             \<lparr>params_Madhab = madhab,
              params_Method = fst (getCalculationMethod (CalculationMethod (config w)))\<rparr>
           = Inr computed"
    and "SetTimeZone env computed (time_Location env) = Inl err"
  shows "scheduler (updatePrayerTimes env w) = scheduler w"
  using assms
  by (simp add: updatePrayerTimes_def Let_def split_beta)

text \<open>
  C2. After a rebuild that succeeds, the jobs tagged adhan are exactly five, one for each
  of fajr, dhuhr, asr, maghrib and isha, each limited to one run at the clock time of the
  freshly computed prayer time of its name; the scheduler holds the jobs it had that are
  not tagged adhan, followed by these five, so no job of an earlier rebuild remains.
\<close>

theorem updatePrayerTimes_replaces_daily_group:
  assumes "calc_NewPrayerTimes env (coordinates w) (data_NewDateComponents (time_Now env))
             \<lparr>params_Madhab = madhab,
              params_Method = fst (getCalculationMethod (CalculationMethod (config w)))\<rparr>
           = Inr computed"
    and "SetTimeZone env computed (time_Location env) = Inr pt"
  shows "adhanJobs (scheduler (updatePrayerTimes env w)) =
     map (\<lambda>(n, t). \<lparr>jobInterval = 1, jobUnit = Days, jobRunLimit = Some 1,
            jobAt = [Format_150405 t], jobTags = [''adhan''], jobFunc = Some (AdhanFunc n t)\<rparr>)
       [(''fajr'', Fajr pt), (''dhuhr'', Dhuhr pt), (''asr'', Asr pt),
        (''maghrib'', Maghrib pt), (''isha'', Isha pt)]
     \<and> scheduler (updatePrayerTimes env w) =
         gocron_RemoveByTag ''adhan'' (scheduler w) @
         adhanJobs (scheduler (updatePrayerTimes env w))"
proof -
  note sched = scheduler_updatePrayerTimes_success [OF assms]
  have "adhanJobs (scheduler (updatePrayerTimes env w)) =
     map (\<lambda>(n, t). \<lparr>jobInterval = 1, jobUnit = Days, jobRunLimit = Some 1,
            jobAt = [Format_150405 t], jobTags = [''adhan''], jobFunc = Some (AdhanFunc n t)\<rparr>)
       [(''fajr'', Fajr pt), (''dhuhr'', Dhuhr pt), (''asr'', Asr pt),
        (''maghrib'', Maghrib pt), (''isha'', Isha pt)]"
    unfolding sched adhanJobs_append adhanJobs_RemoveByTag
    by (simp add: adhanJobs_def)
  then show ?thesis
    using sched by simp
qed

lemma Format_samples:
  "Format_150405 18750 = ''05:12:30''" "Format_150405 43740 = ''12:09:00''"
  "Format_150405 54125 = ''15:02:05''" "Format_150405 64860 = ''18:01:00''"
  "Format_150405 70439 = ''19:33:59''"
  by (simp_all add: Format_150405_def digit2_def)

theorem updatePrayerTimes_replaces_daily_group_witness:
  "calc_NewPrayerTimes sampleEnv (coordinates sampleWorld)
       (data_NewDateComponents (time_Now sampleEnv))
       \<lparr>params_Madhab = madhab,
        params_Method = fst (getCalculationMethod (CalculationMethod (config sampleWorld)))\<rparr>
     = Inr samplePrayerTimes
   \<and> SetTimeZone sampleEnv samplePrayerTimes (time_Location sampleEnv) = Inr samplePrayerTimes
   \<and> staleJob \<in> set (adhanJobs (scheduler sampleWorld))
   \<and> adhanJobs (scheduler (updatePrayerTimes sampleEnv sampleWorld)) =
       [\<lparr>jobInterval = 1, jobUnit = Days, jobRunLimit = Some 1, jobAt = [''05:12:30''],
          jobTags = [''adhan''], jobFunc = Some (AdhanFunc ''fajr'' 18750)\<rparr>,
        \<lparr>jobInterval = 1, jobUnit = Days, jobRunLimit = Some 1, jobAt = [''12:09:00''],
          jobTags = [''adhan''], jobFunc = Some (AdhanFunc ''dhuhr'' 43740)\<rparr>,
        \<lparr>jobInterval = 1, jobUnit = Days, jobRunLimit = Some 1, jobAt = [''15:02:05''],
          jobTags = [''adhan''], jobFunc = Some (AdhanFunc ''asr'' 54125)\<rparr>,
        \<lparr>jobInterval = 1, jobUnit = Days, jobRunLimit = Some 1, jobAt = [''18:01:00''],
          jobTags = [''adhan''], jobFunc = Some (AdhanFunc ''maghrib'' 64860)\<rparr>,
        \<lparr>jobInterval = 1, jobUnit = Days, jobRunLimit = Some 1, jobAt = [''19:33:59''],
          jobTags = [''adhan''], jobFunc = Some (AdhanFunc ''isha'' 70439)\<rparr>]"
proof -
  have h1: "calc_NewPrayerTimes sampleEnv (coordinates sampleWorld)
       (data_NewDateComponents (time_Now sampleEnv))
       \<lparr>params_Madhab = madhab,
        params_Method = fst (getCalculationMethod (CalculationMethod (config sampleWorld)))\<rparr>
     = Inr samplePrayerTimes"
    by (simp add: sampleEnv_def)
  have h2: "SetTimeZone sampleEnv samplePrayerTimes (time_Location sampleEnv)
     = Inr samplePrayerTimes"
    by (simp add: sampleEnv_def)
  have h3: "staleJob \<in> set (adhanJobs (scheduler sampleWorld))"
    by (simp add: sampleWorld_def adhanJobs_def staleJob_def midnightJob_def
        gocron_At_def gocron_Day_def gocron_Every_def)
  show ?thesis
    using updatePrayerTimes_replaces_daily_group [OF h1 h2] h1 h2 h3
    by (simp add: samplePrayerTimes_def Format_samples)
qed


subsection \<open>A failed rebuild\<close>

lemma scheduler_armedWorld:
  "adhanJobs (scheduler armedWorld) =
     map (\<lambda>(n, t). \<lparr>jobInterval = 1, jobUnit = Days, jobRunLimit = Some 1,
            jobAt = [Format_150405 t], jobTags = [''adhan''], jobFunc = Some (AdhanFunc n t)\<rparr>)
       [(''fajr'', 18750), (''dhuhr'', 43740), (''asr'', 54125),
        (''maghrib'', 64860), (''isha'', 70439)]"
proof -
  have h1: "calc_NewPrayerTimes sampleEnv (coordinates sampleWorld)
       (data_NewDateComponents (time_Now sampleEnv))
       \<lparr>params_Madhab = madhab,
        params_Method = fst (getCalculationMethod (CalculationMethod (config sampleWorld)))\<rparr>
     = Inr samplePrayerTimes"
    by (simp add: sampleEnv_def)
  have h2: "SetTimeZone sampleEnv samplePrayerTimes (time_Location sampleEnv)
     = Inr samplePrayerTimes"
    by (simp add: sampleEnv_def)
  show ?thesis
    unfolding armedWorld_def scheduler_updatePrayerTimes_success [OF h1 h2]
      adhanJobs_append adhanJobs_RemoveByTag
    by (simp add: adhanJobs_def samplePrayerTimes_def)
qed

lemma onUpdateSettings_compute_failure:
  assumes "toml_DecodeFile env (configFile w) (config w) = (cfg, None)"
    and "util_NewCoordinates env (Lan cfg) (Lon cfg) = (c, None)"
    and "calc_NewPrayerTimes env c (data_NewDateComponents (time_Now env))
             \<lparr>params_Madhab = madhab,
              params_Method = fst (getCalculationMethod (CalculationMethod cfg))\<rparr>
           = Inl err"
  shows "scheduler (onUpdateSettings env w) = gocron_RemoveByTag ''adhan'' (scheduler w)"
proof -
  let ?w3 = "w\<lparr>config := cfg, coordinates := c,
               scheduler := gocron_RemoveByTag ''adhan'' (scheduler w)\<rparr>"
  have "onUpdateSettings env w = updatePrayerTimes env ?w3"
    using assms(1,2) by (simp add: onUpdateSettings_def loadConfig_def Let_def)
  moreover have "scheduler (updatePrayerTimes env ?w3) = scheduler ?w3"
    by (rule scheduler_updatePrayerTimes_failure [where err = err]) (simp add: assms(3))
  ultimately show ?thesis by simp
qed

text \<open>
  C1. A rebuild whose computation fails leaves the daily group as it was when it is the
  midnight or the start-up rebuild (\<open>updatePrayerTimes\<close> alone), but not on the settings
  path: with five jobs armed, the latitude changed to 89.5 and the computation failing
  there, \<open>onUpdateSettings\<close> leaves no job of the daily group, while \<open>updatePrayerTimes\<close>
  with the same failing computation keeps all five.
\<close>

theorem failed_rebuild_on_settings_path_clears_jobs:
  "length (adhanJobs (scheduler armedWorld)) = 5
   \<and> adhanJobs (scheduler (onUpdateSettings polarEnv armedWorld)) = []
   \<and> adhanJobs (scheduler (updatePrayerTimes polarEnv polarWorld)) =
       adhanJobs (scheduler armedWorld)"
proof -
  have a: "length (adhanJobs (scheduler armedWorld)) = 5"
    by (simp add: scheduler_armedWorld)
  have "scheduler (updatePrayerTimes polarEnv polarWorld) = scheduler polarWorld"
    by (rule scheduler_updatePrayerTimes_failure [where err = "''no sunrise''"])
      (simp add: polarEnv_def polarWorld_def)
  then have b: "scheduler (updatePrayerTimes polarEnv polarWorld) = scheduler armedWorld"
    by (simp add: polarWorld_def)
  have "scheduler (onUpdateSettings polarEnv armedWorld) =
      gocron_RemoveByTag ''adhan'' (scheduler armedWorld)"
    by (rule onUpdateSettings_compute_failure [where err = "''no sunrise''"
          and cfg = "(config armedWorld)\<lparr>Lan := 89.5\<rparr>"
          and c = "Some \<lparr>Latitude = 89.5, Longitude = Lon (config armedWorld)\<rparr>"])
      (simp_all add: polarEnv_def sampleEnv_def)
  then have c: "adhanJobs (scheduler (onUpdateSettings polarEnv armedWorld)) = []"
    by (simp add: adhanJobs_RemoveByTag)
  from a b c show ?thesis by simp
qed

subsection \<open>The playback chain\<close>

lemma playAudio_failure:
  assumes "\<not> os_Open env p \<or> mp3_Decode env p = None \<or> \<not> speaker_Init env p"
  shows "\<exists>err. playAudio env p a w = (w, Some err)"
  using assms by (auto simp add: playAudio_def split: option.splits)


text \<open>
  C7. When the primary playback fails (the file cannot be opened or decoded, or the
  speaker cannot be initialised), the job logs the failure and returns: nothing is played,
  the secondary sound is not attempted, and only the trace of the state changes.
\<close>

theorem primary_failure_aborts_chain:
  assumes "\<not> os_Open env (audioFiles n) \<or> mp3_Decode env (audioFiles n) = None
           \<or> \<not> speaker_Init env (audioFiles n)"
  shows "\<exists>err. scheduleAdhan_job env n t w = emit [Print_Playing n t, Log_ErrorPlaying n err] w
           \<and> trace (scheduleAdhan_job env n t w) =
               trace w @ [Print_Playing n t, Log_ErrorPlaying n err]
           \<and> scheduler (scheduleAdhan_job env n t w) = scheduler w
           \<and> config (scheduleAdhan_job env n t w) = config w"
proof -
  obtain err where "playAudio env (audioFiles n) n (emit [Print_Playing n t] w) =
      (emit [Print_Playing n t] w, Some err)"
    using playAudio_failure [OF assms] by blast
  then have "scheduleAdhan_job env n t w = emit [Print_Playing n t, Log_ErrorPlaying n err] w"
    by (simp add: scheduleAdhan_job_def)
  then show ?thesis by simp
qed

theorem primary_failure_aborts_chain_witness:
  "\<not> os_Open muteEnv (audioFiles ''fajr'')
   \<and> (\<exists>err. scheduleAdhan_job muteEnv ''fajr'' 18750 sampleWorld =
               emit [Print_Playing ''fajr'' 18750, Log_ErrorPlaying ''fajr'' err] sampleWorld)"
proof -
  have h: "\<not> os_Open muteEnv (audioFiles ''fajr'')"
    by (simp add: muteEnv_def)
  then have "\<not> os_Open muteEnv (audioFiles ''fajr'')
      \<or> mp3_Decode muteEnv (audioFiles ''fajr'') = None
      \<or> \<not> speaker_Init muteEnv (audioFiles ''fajr'')"
    by simp
  from primary_failure_aborts_chain [OF this, of 18750 sampleWorld] h
  show ?thesis by blast
qed

lemma scheduleAdhan_job_success:
  assumes "playAudio env (audioFiles n) n (emit [Print_Playing n t] w) = (w1, None)"
  shows "scheduleAdhan_job env n t w =
     (if n \<noteq> ''test'' \<and> AdhanPrayer (config w1) then
        (case playAudio env (audioFiles ''prayer'') ''prayer''
                (emit [Print_PlayingPrayerAfter n] w1) of
           (w2, Some err) \<Rightarrow> emit [Log_ErrorPlayingPrayerAfter n err] w2
         | (w2, None) \<Rightarrow> w2)
      else w1)"
  using assms by (simp add: scheduleAdhan_job_def)







subsection \<open>Merging the updates\<close>

lemma mergeVolume_Cons:
  "mergeVolume ((k, v) # vu) cv = mergeVolume vu (AList.update k v cv)"
  by (simp add: mergeVolume_def)

lemma map_of_mergeVolume:
  "distinct (map fst vu) \<Longrightarrow> map_of (mergeVolume vu cv) = map_of cv ++ map_of vu"
proof (induction vu arbitrary: cv)
  case Nil
  then show ?case by (simp add: mergeVolume_def)
next
  case (Cons kv vu)
  obtain k v where kv: "kv = (k, v)" by (cases kv)
  from Cons.prems kv have fresh: "k \<notin> dom (map_of vu)" and dist: "distinct (map fst vu)"
    by (auto simp add: dom_map_of_conv_image_fst)
  have "map_of (mergeVolume (kv # vu) cv) = map_of (AList.update k v cv) ++ map_of vu"
    unfolding kv mergeVolume_Cons by (rule Cons.IH [OF dist])
  also have "\<dots> = (map_of cv ++ map_of vu)(k \<mapsto> v)"
    using fresh by (simp add: update_conv' map_add_upd_left)
  also have "\<dots> = map_of cv ++ map_of (kv # vu)"
    by (simp add: kv)
  finally show ?case .
qed

lemma map_of_applyUpdate_other:
  "key \<noteq> ''volume'' \<Longrightarrow>
   map_of (applyUpdate (k, v) cur) key = (if k = key then Some v else map_of cur key)"
  by (auto simp add: applyUpdate_def update_conv' split: Value.splits option.splits)

lemma map_of_applyUpdate_volume:
  "map_of (applyUpdate (k, v) cur) ''volume'' =
     (if k = ''volume'' then
        (case v of
           VObject vu \<Rightarrow>
             (case map_of cur ''volume'' of
                Some (VObject cv) \<Rightarrow> Some (VObject (mergeVolume vu cv))
              | _ \<Rightarrow> map_of cur ''volume'')
         | _ \<Rightarrow> map_of cur ''volume'')
      else map_of cur ''volume'')"
  by (auto simp add: applyUpdate_def update_conv' split: Value.splits option.splits)

lemma mergeUpdates_Cons:
  "mergeUpdates (kv # updates) cur = mergeUpdates updates (applyUpdate kv cur)"
  by (simp add: mergeUpdates_def)

lemma map_of_mergeUpdates_other:
  "distinct (map fst updates) \<Longrightarrow> key \<noteq> ''volume'' \<Longrightarrow>
   map_of (mergeUpdates updates cur) key = (map_of cur ++ map_of updates) key"
proof (induction updates arbitrary: cur)
  case Nil
  then show ?case by (simp add: mergeUpdates_def)
next
  case (Cons kv updates)
  obtain k v where kv: "kv = (k, v)" by (cases kv)
  from Cons.prems kv have fresh: "map_of updates k = None" and dist: "distinct (map fst updates)"
    by (auto simp add: map_of_eq_None_iff)
  have "map_of (mergeUpdates (kv # updates) cur) key =
      (map_of (applyUpdate (k, v) cur) ++ map_of updates) key"
    unfolding kv mergeUpdates_Cons by (rule Cons.IH [OF dist Cons.prems(2)])
  also have "\<dots> = (map_of cur ++ map_of (kv # updates)) key"
    using fresh Cons.prems(2)
    by (auto simp add: kv map_add_def map_of_applyUpdate_other split: option.splits)
  finally show ?case .
qed

lemma map_of_mergeUpdates_no_volume:
  "''volume'' \<notin> fst ` set updates \<Longrightarrow>
   map_of (mergeUpdates updates cur) ''volume'' = map_of cur ''volume''"
proof (induction updates arbitrary: cur)
  case Nil
  then show ?case by (simp add: mergeUpdates_def)
next
  case (Cons kv updates)
  obtain k v where kv: "kv = (k, v)" by (cases kv)
  from Cons.prems kv have "k \<noteq> ''volume''" and "''volume'' \<notin> fst ` set updates"
    by auto
  then show ?case
    unfolding kv mergeUpdates_Cons
    by (simp add: Cons.IH map_of_applyUpdate_volume)
qed

lemma map_of_mergeUpdates_volume:
  "distinct (map fst updates) \<Longrightarrow>
   map_of updates ''volume'' = Some (VObject vu) \<Longrightarrow>
   map_of cur ''volume'' = Some (VObject cv) \<Longrightarrow>
   map_of (mergeUpdates updates cur) ''volume'' = Some (VObject (mergeVolume vu cv))"
proof (induction updates arbitrary: cur)
  case Nil
  then show ?case by simp
next
  case (Cons kv updates)
  obtain k v where kv: "kv = (k, v)" by (cases kv)
  from Cons.prems(1) kv have fresh: "k \<notin> fst ` set updates" and dist: "distinct (map fst updates)"
    by auto
  show ?case
  proof (cases "k = ''volume''")
    case True
    with Cons.prems(2) kv have v: "v = VObject vu" by simp
    from True fresh have "''volume'' \<notin> fst ` set updates" by simp
    then show ?thesis
      unfolding kv mergeUpdates_Cons
      by (simp add: map_of_mergeUpdates_no_volume map_of_applyUpdate_volume True v Cons.prems(3))
  next
    case False
    with Cons.prems(2) kv have rest: "map_of updates ''volume'' = Some (VObject vu)" by simp
    have cur': "map_of (applyUpdate (k, v) cur) ''volume'' = Some (VObject cv)"
      using False Cons.prems(3) by (simp add: map_of_applyUpdate_volume)
    show ?thesis
      unfolding kv mergeUpdates_Cons by (rule Cons.IH [OF dist rest cur'])
  qed
qed

subsection \<open>The settings endpoint\<close>

lemma config_scheduleAdhan [simp]: "config (scheduleAdhan n t w) = config w"
  by (simp add: scheduleAdhan_def Let_def)

lemma coordinates_scheduleAdhan [simp]: "coordinates (scheduleAdhan n t w) = coordinates w"
  by (simp add: scheduleAdhan_def Let_def)

lemma configFile_scheduleAdhan [simp]: "configFile (scheduleAdhan n t w) = configFile w"
  by (simp add: scheduleAdhan_def Let_def)

lemma updatePrayerTimes_keeps:
  "config (updatePrayerTimes env w) = config w"
  "coordinates (updatePrayerTimes env w) = coordinates w"
  "configFile (updatePrayerTimes env w) = configFile w"
  by (simp_all add: updatePrayerTimes_def Let_def split_beta split: sum.splits)

lemma gocron_RemoveByTag_twice:
  "gocron_RemoveByTag tag (gocron_RemoveByTag tag js) = gocron_RemoveByTag tag js"
  by (simp add: gocron_RemoveByTag_def)

lemma onUpdateSettings_decode_failure:
  assumes "toml_DecodeFile env (configFile w) (config w) = (left, Some err)"
  shows "onUpdateSettings env w =
     emit [Log_FailedToReloadConfig (''error loading config: '' @ err)] (w\<lparr>config := left\<rparr>)"
  using assms by (simp add: onUpdateSettings_def loadConfig_def)

lemma onUpdateSettings_rebuilds:
  assumes "toml_DecodeFile env (configFile w) (config w) = (cfg, None)"
    and "util_NewCoordinates env (Lan cfg) (Lon cfg) = (Some co, None)"
    and "calc_NewPrayerTimes env (Some co) (data_NewDateComponents (time_Now env))
             \<lparr>params_Madhab = madhab,
              params_Method = fst (getCalculationMethod (CalculationMethod cfg))\<rparr>
           = Inr computed"
    and "SetTimeZone env computed (time_Location env) = Inr pt"
  shows "config (onUpdateSettings env w) = cfg"
    and "coordinates (onUpdateSettings env w) = Some co"
    and "configFile (onUpdateSettings env w) = configFile w"
    and "scheduler (onUpdateSettings env w) =
     gocron_RemoveByTag ''adhan'' (scheduler w) @
     map (\<lambda>(n, t). \<lparr>jobInterval = 1, jobUnit = Days, jobRunLimit = Some 1,
            jobAt = [Format_150405 t], jobTags = [''adhan''], jobFunc = Some (AdhanFunc n t)\<rparr>)
       [(''fajr'', Fajr pt), (''dhuhr'', Dhuhr pt), (''asr'', Asr pt),
        (''maghrib'', Maghrib pt), (''isha'', Isha pt)]"
proof -
  let ?w3 = "w\<lparr>config := cfg, coordinates := Some co,
               scheduler := gocron_RemoveByTag ''adhan'' (scheduler w)\<rparr>"
  have run: "onUpdateSettings env w = updatePrayerTimes env ?w3"
    using assms(1,2) by (simp add: onUpdateSettings_def loadConfig_def Let_def)
  show "config (onUpdateSettings env w) = cfg"
    "coordinates (onUpdateSettings env w) = Some co"
    "configFile (onUpdateSettings env w) = configFile w"
    by (simp_all add: run updatePrayerTimes_keeps)
  have "scheduler (updatePrayerTimes env ?w3) =
     gocron_RemoveByTag ''adhan'' (scheduler ?w3) @
     map (\<lambda>(n, t). \<lparr>jobInterval = 1, jobUnit = Days, jobRunLimit = Some 1,
            jobAt = [Format_150405 t], jobTags = [''adhan''], jobFunc = Some (AdhanFunc n t)\<rparr>)
       [(''fajr'', Fajr pt), (''dhuhr'', Dhuhr pt), (''asr'', Asr pt),
        (''maghrib'', Maghrib pt), (''isha'', Isha pt)]"
    by (rule scheduler_updatePrayerTimes_success [where computed = computed])
      (simp_all add: assms(3,4))
  then show "scheduler (onUpdateSettings env w) =
     gocron_RemoveByTag ''adhan'' (scheduler w) @
     map (\<lambda>(n, t). \<lparr>jobInterval = 1, jobUnit = Days, jobRunLimit = Some 1,
            jobAt = [Format_150405 t], jobTags = [''adhan''], jobFunc = Some (AdhanFunc n t)\<rparr>)
       [(''fajr'', Fajr pt), (''dhuhr'', Dhuhr pt), (''asr'', Asr pt),
        (''maghrib'', Maghrib pt), (''isha'', Isha pt)]"
    by (simp add: run gocron_RemoveByTag_twice)
qed

lemma updateSettingsHandler_written:
  assumes "gin_BindJSON env body = Inr updates" and "configFile w = Some configBytes"
    and "toml_Decode env configBytes = Inr currentConfig" and "os_Create env"
    and "toml_Encode env (mergeUpdates updates currentConfig) = (written, None)"
  shows "updateSettingsHandler env body w =
     (onUpdateSettings env (w\<lparr>configFile := Some written\<rparr>),
      JSON 200 ''message'' ''Settings updated successfully'')"
  using assms by (simp add: updateSettingsHandler_def Let_def)

lemma configFile_onUpdateSettings:
  "configFile (onUpdateSettings env w) = configFile w"
  by (simp add: onUpdateSettings_def loadConfig_def Let_def updatePrayerTimes_keeps
      split: prod.splits option.splits)

text \<open>
  C8. The settings endpoint answers 400 to a body that does not bind. It answers 500,
  and does not reload, when the handler itself cannot read the settings file, parse it
  into a document, create it or write it. Otherwise it writes the merged document, runs
  the reload and answers 200, whatever the reload does: when decoding the written file
  fails, the failure is logged and the configuration is what the decoder left; when the
  reload, the coordinates and the computation succeed, the configuration and the
  coordinates are the reloaded ones and the scheduler holds its former jobs that are
  not tagged adhan followed by the five jobs of the fresh prayer times. In the merged
  document every key of the update other than volume has the update's value, every
  other key keeps its stored value, and when both the update and the store hold an
  object under volume, the stored object is overwritten key by key with the update's.
\<close>

theorem updateSettingsHandler_outcomes:
  "(gin_BindJSON env body = Inl e1 \<longrightarrow>
      updateSettingsHandler env body w = (w, JSON 400 ''error'' ''Invalid JSON format''))
   \<and> (gin_BindJSON env body = Inr updates \<longrightarrow>
        (configFile w = None \<longrightarrow>
           updateSettingsHandler env body w =
             (w, JSON 500 ''error'' ''Failed to read config file''))
        \<and> (configFile w = Some configBytes \<longrightarrow>
             (toml_Decode env configBytes = Inl e2 \<longrightarrow>
                updateSettingsHandler env body w =
                  (w, JSON 500 ''error'' ''Failed to parse config file''))
             \<and> (toml_Decode env configBytes = Inr currentConfig \<longrightarrow>
                  (\<not> os_Create env \<longrightarrow>
                     updateSettingsHandler env body w =
                       (w, JSON 500 ''error'' ''Failed to open config file for writing''))
                  \<and> (os_Create env \<longrightarrow>
                       (toml_Encode env (mergeUpdates updates currentConfig) =
                          (written, Some e3) \<longrightarrow>
                          updateSettingsHandler env body w =
                            (w\<lparr>configFile := Some written\<rparr>,
                             JSON 500 ''error'' ''Failed to write config file''))
                       \<and> (toml_Encode env (mergeUpdates updates currentConfig) =
                            (written, None) \<longrightarrow>
                            snd (updateSettingsHandler env body w) =
                              JSON 200 ''message'' ''Settings updated successfully''
                            \<and> configFile (fst (updateSettingsHandler env body w)) = Some written
                            \<and> (toml_DecodeFile env (Some written) (config w) = (left, Some e4)
                                \<longrightarrow> fst (updateSettingsHandler env body w) =
                                  emit [Log_FailedToReloadConfig (''error loading config: '' @ e4)]
                                    (w\<lparr>configFile := Some written, config := left\<rparr>))
                            \<and> (toml_DecodeFile env (Some written) (config w) = (cfg, None)
                                \<longrightarrow> util_NewCoordinates env (Lan cfg) (Lon cfg) = (Some co, None)
                                \<longrightarrow> calc_NewPrayerTimes env (Some co)
                                      (data_NewDateComponents (time_Now env))
                                      \<lparr>params_Madhab = madhab,
                                       params_Method =
                                         fst (getCalculationMethod (CalculationMethod cfg))\<rparr>
                                    = Inr computed
                                \<longrightarrow> SetTimeZone env computed (time_Location env) = Inr pt
                                \<longrightarrow> config (fst (updateSettingsHandler env body w)) = cfg
                                  \<and> coordinates (fst (updateSettingsHandler env body w)) = Some co
                                  \<and> scheduler (fst (updateSettingsHandler env body w)) =
                                      gocron_RemoveByTag ''adhan'' (scheduler w) @
                                      map (\<lambda>(n, t). \<lparr>jobInterval = 1, jobUnit = Days,
                                             jobRunLimit = Some 1, jobAt = [Format_150405 t],
                                             jobTags = [''adhan''],
                                             jobFunc = Some (AdhanFunc n t)\<rparr>)
                                        [(''fajr'', Fajr pt), (''dhuhr'', Dhuhr pt),
                                         (''asr'', Asr pt), (''maghrib'', Maghrib pt),
                                         (''isha'', Isha pt)]))))))
   \<and> (distinct (map fst updates) \<longrightarrow>
        (\<forall>key. key \<noteq> ''volume'' \<longrightarrow>
           map_of (mergeUpdates updates currentConfig) key =
             (case map_of updates key of Some v \<Rightarrow> Some v | None \<Rightarrow> map_of currentConfig key))
        \<and> (\<forall>vu cv. map_of updates ''volume'' = Some (VObject vu) \<longrightarrow>
              map_of currentConfig ''volume'' = Some (VObject cv) \<longrightarrow>
              distinct (map fst vu) \<longrightarrow>
              (\<exists>merged. map_of (mergeUpdates updates currentConfig) ''volume'' =
                          Some (VObject merged)
                 \<and> (\<forall>k. map_of merged k =
                       (case map_of vu k of Some v \<Rightarrow> Some v | None \<Rightarrow> map_of cv k)))))"
  apply (intro conjI impI)
  subgoal by (simp add: updateSettingsHandler_def)
  subgoal by (simp add: updateSettingsHandler_def)
  subgoal by (simp add: updateSettingsHandler_def)
  subgoal by (simp add: updateSettingsHandler_def Let_def)
  subgoal by (simp add: updateSettingsHandler_def Let_def)
  subgoal by (simp add: updateSettingsHandler_written)
  subgoal by (simp add: updateSettingsHandler_written configFile_onUpdateSettings)
  subgoal by (simp add: updateSettingsHandler_written onUpdateSettings_decode_failure)
  subgoal by (simp add: updateSettingsHandler_written onUpdateSettings_rebuilds(1))
  subgoal by (simp add: updateSettingsHandler_written onUpdateSettings_rebuilds(2))
  subgoal by (simp add: updateSettingsHandler_written onUpdateSettings_rebuilds(4))
  subgoal by (simp add: map_of_mergeUpdates_other map_add_def)
  subgoal
    by (auto simp add: map_of_mergeUpdates_volume map_of_mergeVolume map_add_def)
  done


lemma RemoveByTag_sampleWorld:
  "gocron_RemoveByTag ''adhan'' (scheduler sampleWorld) = [midnightJob]"
  by (simp add: gocron_RemoveByTag_def sampleWorld_def staleJob_def midnightJob_untagged)

theorem updateSettingsHandler_outcomes_witness:
  "gin_BindJSON reloadEnv ''{'' = Inl ''unexpected EOF''
   \<and> updateSettingsHandler reloadEnv ''{'' sampleWorld =
       (sampleWorld, JSON 400 ''error'' ''Invalid JSON format'')
   \<and> gin_BindJSON reloadEnv ''{}'' = Inr sampleUpdates
   \<and> configFile sampleWorld = Some ''stored''
   \<and> toml_Decode reloadEnv ''stored'' = Inr sampleDocument
   \<and> os_Create reloadEnv
   \<and> toml_Encode reloadEnv (mergeUpdates sampleUpdates sampleDocument) = (''written'', None)
   \<and> toml_DecodeFile reloadEnv (Some ''written'') (config sampleWorld) =
       (sampleConfig\<lparr>AdhanPrayer := False\<rparr>, None)
   \<and> snd (updateSettingsHandler reloadEnv ''{}'' sampleWorld) =
       JSON 200 ''message'' ''Settings updated successfully''
   \<and> configFile (fst (updateSettingsHandler reloadEnv ''{}'' sampleWorld)) = Some ''written''
   \<and> config (fst (updateSettingsHandler reloadEnv ''{}'' sampleWorld)) =
       sampleConfig\<lparr>AdhanPrayer := False\<rparr>
   \<and> scheduler (fst (updateSettingsHandler reloadEnv ''{}'' sampleWorld)) =
       [midnightJob,
        \<lparr>jobInterval = 1, jobUnit = Days, jobRunLimit = Some 1, jobAt = [''05:12:30''],
          jobTags = [''adhan''], jobFunc = Some (AdhanFunc ''fajr'' 18750)\<rparr>,
        \<lparr>jobInterval = 1, jobUnit = Days, jobRunLimit = Some 1, jobAt = [''12:09:00''],
          jobTags = [''adhan''], jobFunc = Some (AdhanFunc ''dhuhr'' 43740)\<rparr>,
        \<lparr>jobInterval = 1, jobUnit = Days, jobRunLimit = Some 1, jobAt = [''15:02:05''],
          jobTags = [''adhan''], jobFunc = Some (AdhanFunc ''asr'' 54125)\<rparr>,
        \<lparr>jobInterval = 1, jobUnit = Days, jobRunLimit = Some 1, jobAt = [''18:01:00''],
          jobTags = [''adhan''], jobFunc = Some (AdhanFunc ''maghrib'' 64860)\<rparr>,
        \<lparr>jobInterval = 1, jobUnit = Days, jobRunLimit = Some 1, jobAt = [''19:33:59''],
          jobTags = [''adhan''], jobFunc = Some (AdhanFunc ''isha'' 70439)\<rparr>]
   \<and> distinct (map fst sampleUpdates)
   \<and> map_of (mergeUpdates sampleUpdates sampleDocument) ''adhan_prayer'' = Some (VBool False)"
proof -
  have bad: "gin_BindJSON reloadEnv ''{'' = Inl ''unexpected EOF''"
    and good: "gin_BindJSON reloadEnv ''{}'' = Inr sampleUpdates"
    and stored: "configFile sampleWorld = Some ''stored''"
    and dec: "toml_Decode reloadEnv ''stored'' = Inr sampleDocument"
    and create: "os_Create reloadEnv"
    and enc: "toml_Encode reloadEnv (mergeUpdates sampleUpdates sampleDocument) =
        (''written'', None)"
    and dist: "distinct (map fst sampleUpdates)"
    by (simp_all add: reloadEnv_def sampleEnv_def sampleWorld_def sampleUpdates_def)
  have reload: "toml_DecodeFile reloadEnv (Some ''written'') (config sampleWorld) =
       (sampleConfig\<lparr>AdhanPrayer := False\<rparr>, None)"
    by (simp add: reloadEnv_def sampleWorld_def)
  have coords: "util_NewCoordinates reloadEnv (Lan (sampleConfig\<lparr>AdhanPrayer := False\<rparr>))
      (Lon (sampleConfig\<lparr>AdhanPrayer := False\<rparr>)) =
      (Some \<lparr>Latitude = 52.52, Longitude = 13.405\<rparr>, None)"
    by (simp add: reloadEnv_def sampleEnv_def sampleConfig_def)
  have calc: "calc_NewPrayerTimes reloadEnv c d p = Inr samplePrayerTimes" for c d p
    by (simp add: reloadEnv_def sampleEnv_def)
  have tz: "SetTimeZone reloadEnv samplePrayerTimes z = Inr samplePrayerTimes" for z
    by (simp add: reloadEnv_def sampleEnv_def)
  have upd: "map_of sampleUpdates ''adhan_prayer'' = Some (VBool False)"
    by (simp add: sampleUpdates_def)
  note a = updateSettingsHandler_outcomes
    [where env = reloadEnv and body = "''{''" and w = sampleWorld and ?e1.0 = "''unexpected EOF''"]
  note b = updateSettingsHandler_outcomes
    [where env = reloadEnv and body = "''{}''" and w = sampleWorld and updates = sampleUpdates
      and configBytes = "''stored''" and currentConfig = sampleDocument
      and written = "''written''" and cfg = "sampleConfig\<lparr>AdhanPrayer := False\<rparr>"
      and co = "\<lparr>Latitude = 52.52, Longitude = 13.405\<rparr>" and computed = samplePrayerTimes
      and pt = samplePrayerTimes]
  have "updateSettingsHandler reloadEnv ''{'' sampleWorld =
       (sampleWorld, JSON 400 ''error'' ''Invalid JSON format'')"
    using a bad by simp
  moreover have "snd (updateSettingsHandler reloadEnv ''{}'' sampleWorld) =
       JSON 200 ''message'' ''Settings updated successfully''"
    "configFile (fst (updateSettingsHandler reloadEnv ''{}'' sampleWorld)) = Some ''written''"
    "config (fst (updateSettingsHandler reloadEnv ''{}'' sampleWorld)) =
       sampleConfig\<lparr>AdhanPrayer := False\<rparr>"
    "scheduler (fst (updateSettingsHandler reloadEnv ''{}'' sampleWorld)) =
       gocron_RemoveByTag ''adhan'' (scheduler sampleWorld) @
       map (\<lambda>(n, t). \<lparr>jobInterval = 1, jobUnit = Days, jobRunLimit = Some 1,
              jobAt = [Format_150405 t], jobTags = [''adhan''],
              jobFunc = Some (AdhanFunc n t)\<rparr>)
         [(''fajr'', Fajr samplePrayerTimes), (''dhuhr'', Dhuhr samplePrayerTimes),
          (''asr'', Asr samplePrayerTimes), (''maghrib'', Maghrib samplePrayerTimes),
          (''isha'', Isha samplePrayerTimes)]"
    using b good stored dec create enc reload coords calc tz by simp_all
  moreover have "map_of (mergeUpdates sampleUpdates sampleDocument) ''adhan_prayer'' =
      Some (VBool False)"
    using b dist upd by simp
  ultimately show ?thesis
    using bad good stored dec create enc dist reload
    by (simp add: RemoveByTag_sampleWorld samplePrayerTimes_def Format_samples)
qed

text \<open>
  The claim C8 as stated fails: a failure to parse the settings file during the reload is
  answered with 200, not 500, and the reload has run (its failure is in the trace).
\<close>

theorem reload_parse_failure_answers_200:
  "snd (toml_DecodeFile garbledEnv (Some ''written'') (config sampleWorld)) =
     Some ''incompatible types''
   \<and> updateSettingsHandler garbledEnv ''{adhan_prayer: yes}'' sampleWorld =
       (emit [Log_FailedToReloadConfig ''error loading config: incompatible types'']
          (sampleWorld\<lparr>configFile := Some ''written''\<rparr>),
        JSON 200 ''message'' ''Settings updated successfully'')"
proof -
  have env: "gin_BindJSON garbledEnv b = Inr [(''adhan_prayer'', VString ''yes'')]"
    "toml_Decode garbledEnv c = Inr sampleDocument" "os_Create garbledEnv"
    "toml_Encode garbledEnv doc = (''written'', None)"
    "toml_DecodeFile garbledEnv f cfg = (cfg, Some ''incompatible types'')" for b c doc f cfg
    by (simp_all add: garbledEnv_def sampleEnv_def)
  have stored: "configFile sampleWorld = Some ''stored''"
    by (simp add: sampleWorld_def)
  have "onUpdateSettings garbledEnv (sampleWorld\<lparr>configFile := Some ''written''\<rparr>) =
      emit [Log_FailedToReloadConfig ''error loading config: incompatible types'']
        (sampleWorld\<lparr>configFile := Some ''written''\<rparr>)"
    by (simp add: onUpdateSettings_def loadConfig_def env)
  then show ?thesis
    by (simp add: updateSettingsHandler_def Let_def env stored)
qed

subsection \<open>A failed reload\<close>

lemma loadConfig_failure:
  "toml_DecodeFile env (configFile w) (config w) = (left, Some err) \<Longrightarrow>
   loadConfig env w = (w\<lparr>config := left\<rparr>, Some (''error loading config: '' @ err))"
  by (simp add: loadConfig_def)

text \<open>
  C3. When decoding the settings file fails during a reload, \<open>loadConfig\<close> returns the
  error to \<open>onUpdateSettings\<close>, which logs it and returns: the configuration is the
  struct as the decoder left it (the decoder writes into \<open>config\<close> itself), and the
  coordinates and the jobs are unchanged. The error goes no further: whatever the
  decoder does, the response of the settings endpoint is the same.
\<close>

theorem reload_failure_is_logged_only:
  assumes "toml_DecodeFile env (configFile w) (config w) = (left, Some err)"
  shows "loadConfig env w = (w\<lparr>config := left\<rparr>, Some (''error loading config: '' @ err))
     \<and> onUpdateSettings env w =
         emit [Log_FailedToReloadConfig (''error loading config: '' @ err)] (w\<lparr>config := left\<rparr>)
     \<and> coordinates (onUpdateSettings env w) = coordinates w
     \<and> scheduler (onUpdateSettings env w) = scheduler w
     \<and> snd (updateSettingsHandler (env\<lparr>toml_DecodeFile := d\<rparr>) body w0) =
         snd (updateSettingsHandler env body w0)"
proof -
  note load = loadConfig_failure [OF assms]
  have on: "onUpdateSettings env w =
      emit [Log_FailedToReloadConfig (''error loading config: '' @ err)] (w\<lparr>config := left\<rparr>)"
    by (simp add: onUpdateSettings_def load)
  have resp: "snd (updateSettingsHandler (env\<lparr>toml_DecodeFile := d\<rparr>) body w0) =
      snd (updateSettingsHandler env body w0)"
    by (simp add: updateSettingsHandler_def Let_def split: sum.splits option.splits prod.splits)
  from load on resp show ?thesis by simp
qed

theorem reload_failure_is_logged_only_witness:
  "toml_DecodeFile tornEnv (configFile sampleWorld) (config sampleWorld) =
     (sampleConfig\<lparr>Lan := 10\<rparr>, Some ''incompatible types'')
   \<and> onUpdateSettings tornEnv sampleWorld =
       emit [Log_FailedToReloadConfig ''error loading config: incompatible types'']
         (sampleWorld\<lparr>config := sampleConfig\<lparr>Lan := 10\<rparr>\<rparr>)
   \<and> scheduler (onUpdateSettings tornEnv sampleWorld) = scheduler sampleWorld"
proof -
  have h: "toml_DecodeFile tornEnv (configFile sampleWorld) (config sampleWorld) =
     (sampleConfig\<lparr>Lan := 10\<rparr>, Some ''incompatible types'')"
    by (simp add: tornEnv_def sampleWorld_def)
  show ?thesis
    using reload_failure_is_logged_only [OF h] h by simp
qed

text \<open>
  The claim C3 as stated fails: with an update that stores a string as the longitude,
  decoding fails during the reload, yet the endpoint answers 200 and the configuration
  has changed.
\<close>

theorem reload_failure_counterexample:
  "snd (toml_DecodeFile tornEnv (Some ''written'') (config sampleWorld)) \<noteq> None
   \<and> snd (updateSettingsHandler tornEnv ''{lan: 10, lon: east}'' sampleWorld) =
       JSON 200 ''message'' ''Settings updated successfully''
   \<and> config (fst (updateSettingsHandler tornEnv ''{lan: 10, lon: east}'' sampleWorld)) \<noteq>
       config sampleWorld"
proof -
  have h: "toml_DecodeFile tornEnv f (config sampleWorld) =
     (sampleConfig\<lparr>Lan := 10\<rparr>, Some ''incompatible types'')" for f
    by (simp add: tornEnv_def sampleWorld_def)
  have env: "gin_BindJSON tornEnv b = Inr [(''lan'', VNumber 10), (''lon'', VString ''east'')]"
    "toml_Decode tornEnv c = Inr sampleDocument" "os_Create tornEnv"
    "toml_Encode tornEnv doc = (''written'', None)" for b c doc
    by (simp_all add: tornEnv_def sampleEnv_def)
  have stored: "configFile sampleWorld = Some ''stored''"
    by (simp add: sampleWorld_def)
  have run: "updateSettingsHandler tornEnv ''{lan: 10, lon: east}'' sampleWorld =
      (onUpdateSettings tornEnv (sampleWorld\<lparr>configFile := Some ''written''\<rparr>),
       JSON 200 ''message'' ''Settings updated successfully'')"
    by (simp add: updateSettingsHandler_def Let_def env stored)
  have "config (onUpdateSettings tornEnv (sampleWorld\<lparr>configFile := Some ''written''\<rparr>)) =
      sampleConfig\<lparr>Lan := 10\<rparr>"
    using h by (simp add: onUpdateSettings_def loadConfig_def)
  moreover have "sampleConfig\<lparr>Lan := 10\<rparr> \<noteq> config sampleWorld"
    by (simp add: sampleWorld_def sampleConfig_def)
  ultimately show ?thesis
    using h run by simp
qed

subsection \<open>Start of the process\<close>

lemma getCalculationMethod_logged:
  "snd (getCalculationMethod s) = [] \<or> snd (getCalculationMethod s) = [Log_UnknownCalculationMethod s]"
  by (simp add: getCalculationMethod_def)

lemma trace_scheduleAdhan [simp]:
  "trace (scheduleAdhan n t w) = trace w @ [Print_Scheduling n t]"
  by (simp add: scheduleAdhan_def Let_def)

lemma trace_updatePrayerTimes:
  "\<exists>es. trace (updatePrayerTimes env w) = trace w @ es
        \<and> length (filter rebuildOutcome es) = 1 \<and> Call_StartBlocking \<notin> set es"
proof -
  obtain cm lg where m: "getCalculationMethod (CalculationMethod (config w)) = (cm, lg)"
    by (cases "getCalculationMethod (CalculationMethod (config w))")
  with getCalculationMethod_logged [of "CalculationMethod (config w)"]
  have quiet: "filter rebuildOutcome lg = []" "Call_StartBlocking \<notin> set lg"
    by auto
  show ?thesis
  proof (cases "calc_NewPrayerTimes env (coordinates w) (data_NewDateComponents (time_Now env))
                  \<lparr>params_Madhab = madhab, params_Method = cm\<rparr>")
    case (Inl err)
    then have "trace (updatePrayerTimes env w) = trace w @ (lg @ [Log_ErrorCalculating err])"
      by (simp add: updatePrayerTimes_def Let_def m)
    with quiet show ?thesis by (intro exI [of _ "lg @ [Log_ErrorCalculating err]"]) simp
  next
    case (Inr computed)
    show ?thesis
    proof (cases "SetTimeZone env computed (time_Location env)")
      case (Inl err)
      with Inr have "trace (updatePrayerTimes env w) =
          trace w @ (lg @ [Log_ErrorSettingTimezone err])"
        by (simp add: updatePrayerTimes_def Let_def m)
      with quiet show ?thesis
        by (intro exI [of _ "lg @ [Log_ErrorSettingTimezone err]"]) simp
    next
      case (Inr pt)
      let ?es = "lg @ [Print_TodaysPrayerTimes pt, Print_Scheduling ''fajr'' (Fajr pt),
        Print_Scheduling ''dhuhr'' (Dhuhr pt), Print_Scheduling ''asr'' (Asr pt),
        Print_Scheduling ''maghrib'' (Maghrib pt), Print_Scheduling ''isha'' (Isha pt)]"
      from Inr \<open>calc_NewPrayerTimes env (coordinates w) (data_NewDateComponents (time_Now env))
                  \<lparr>params_Madhab = madhab, params_Method = cm\<rparr> = Inr computed\<close>
      have "trace (updatePrayerTimes env w) = trace w @ ?es"
        by (simp add: updatePrayerTimes_def Let_def m)
      with quiet show ?thesis by (intro exI [of _ ?es]) simp
    qed
  qed
qed

lemma main_success:
  assumes "toml_DecodeFile env (configFile w0) (config w0) = (cfg, None)"
    and "util_NewCoordinates env (Lan cfg) (Lon cfg) = (c, None)"
  shows "main env w0 = Inr (emit [Call_StartBlocking] (updatePrayerTimes env
           \<lparr>config = cfg, coordinates = c, scheduler = scheduler w0 @ [midnightJob],
            configFile = configFile w0, trace = trace w0 @ [Go_RouterRun]\<rparr>))"
  using assms
  by (cases w0) (simp add: main_def loadConfig_def Let_def emit_def midnightJob_def gocron_Do_def)

text \<open>
  C9. When the process starts (the settings load and the coordinates are valid, so that
  \<open>main\<close> does not exit), \<open>main\<close> reaches \<open>StartBlocking\<close> in the state left by one call of
  \<open>updatePrayerTimes\<close> on the state that holds the midnight job: the trace before
  \<open>Call_StartBlocking\<close> holds exactly one outcome of a rebuild, and the midnight job is
  registered. When the computation and the time zone conversion succeed, the five jobs
  of the day are armed in that state; when either fails, the failure is logged and the
  run loop is entered with the scheduler as it was, the midnight job alone added.
\<close>

theorem main_rebuilds_once_before_StartBlocking:
  assumes load: "toml_DecodeFile env (configFile w0) (config w0) = (cfg, None)"
    and coords: "util_NewCoordinates env (Lan cfg) (Lon cfg) = (Some co, None)"
    and fresh: "trace w0 = []"
  shows "\<exists>w before. main env w0 = Inr w
     \<and> trace w = before @ [Call_StartBlocking]
     \<and> Call_StartBlocking \<notin> set before
     \<and> length (filter rebuildOutcome before) = 1
     \<and> w = emit [Call_StartBlocking] (updatePrayerTimes env
           \<lparr>config = cfg, coordinates = Some co, scheduler = scheduler w0 @ [midnightJob],
            configFile = configFile w0, trace = [Go_RouterRun]\<rparr>)
     \<and> midnightJob \<in> set (scheduler w)
     \<and> (\<forall>computed pt.
          calc_NewPrayerTimes env (Some co) (data_NewDateComponents (time_Now env))
            \<lparr>params_Madhab = madhab,
             params_Method = fst (getCalculationMethod (CalculationMethod cfg))\<rparr> = Inr computed
          \<longrightarrow> SetTimeZone env computed (time_Location env) = Inr pt
          \<longrightarrow> adhanJobs (scheduler w) =
                map (\<lambda>(n, t). \<lparr>jobInterval = 1, jobUnit = Days, jobRunLimit = Some 1,
                       jobAt = [Format_150405 t], jobTags = [''adhan''],
                       jobFunc = Some (AdhanFunc n t)\<rparr>)
                  [(''fajr'', Fajr pt), (''dhuhr'', Dhuhr pt), (''asr'', Asr pt),
                   (''maghrib'', Maghrib pt), (''isha'', Isha pt)])
     \<and> (\<forall>err.
          calc_NewPrayerTimes env (Some co) (data_NewDateComponents (time_Now env))
            \<lparr>params_Madhab = madhab,
             params_Method = fst (getCalculationMethod (CalculationMethod cfg))\<rparr> = Inl err
          \<longrightarrow> scheduler w = scheduler w0 @ [midnightJob])
     \<and> (\<forall>computed err.
          calc_NewPrayerTimes env (Some co) (data_NewDateComponents (time_Now env))
            \<lparr>params_Madhab = madhab,
             params_Method = fst (getCalculationMethod (CalculationMethod cfg))\<rparr> = Inr computed
          \<longrightarrow> SetTimeZone env computed (time_Location env) = Inl err
          \<longrightarrow> scheduler w = scheduler w0 @ [midnightJob])"
proof -
  let ?w4 = "\<lparr>config = cfg, coordinates = Some co, scheduler = scheduler w0 @ [midnightJob],
            configFile = configFile w0, trace = [Go_RouterRun]\<rparr>"
  let ?w = "emit [Call_StartBlocking] (updatePrayerTimes env ?w4)"
  have run: "main env w0 = Inr ?w"
    using main_success [OF load coords] fresh by simp
  obtain es where es: "trace (updatePrayerTimes env ?w4) = trace ?w4 @ es"
    "length (filter rebuildOutcome es) = 1" "Call_StartBlocking \<notin> set es"
    using trace_updatePrayerTimes [of env ?w4] by blast
  let ?before = "Go_RouterRun # es"
  have tr: "trace ?w = ?before @ [Call_StartBlocking]"
    using es(1) by simp
  have cnt: "length (filter rebuildOutcome ?before) = 1" "Call_StartBlocking \<notin> set ?before"
    using es(2,3) by simp_all
  have armed: "scheduler ?w =
        gocron_RemoveByTag ''adhan'' (scheduler w0) @ [midnightJob] @
        map (\<lambda>(n, t). \<lparr>jobInterval = 1, jobUnit = Days, jobRunLimit = Some 1,
            jobAt = [Format_150405 t], jobTags = [''adhan''], jobFunc = Some (AdhanFunc n t)\<rparr>)
          [(''fajr'', Fajr pt), (''dhuhr'', Dhuhr pt), (''asr'', Asr pt),
           (''maghrib'', Maghrib pt), (''isha'', Isha pt)]"
    if ok: "calc_NewPrayerTimes env (Some co) (data_NewDateComponents (time_Now env))
            \<lparr>params_Madhab = madhab,
             params_Method = fst (getCalculationMethod (CalculationMethod cfg))\<rparr> = Inr computed"
      "SetTimeZone env computed (time_Location env) = Inr pt" for computed pt
  proof -
    have "scheduler (updatePrayerTimes env ?w4) =
        gocron_RemoveByTag ''adhan'' (scheduler ?w4) @
        map (\<lambda>(n, t). \<lparr>jobInterval = 1, jobUnit = Days, jobRunLimit = Some 1,
            jobAt = [Format_150405 t], jobTags = [''adhan''], jobFunc = Some (AdhanFunc n t)\<rparr>)
          [(''fajr'', Fajr pt), (''dhuhr'', Dhuhr pt), (''asr'', Asr pt),
           (''maghrib'', Maghrib pt), (''isha'', Isha pt)]"
      by (rule scheduler_updatePrayerTimes_success [where computed = computed])
        (simp_all add: ok)
    then show ?thesis
      by (simp add: gocron_RemoveByTag_def midnightJob_untagged)
  qed
  have jobs: "adhanJobs (scheduler ?w) =
                map (\<lambda>(n, t). \<lparr>jobInterval = 1, jobUnit = Days, jobRunLimit = Some 1,
                       jobAt = [Format_150405 t], jobTags = [''adhan''],
                       jobFunc = Some (AdhanFunc n t)\<rparr>)
                  [(''fajr'', Fajr pt), (''dhuhr'', Dhuhr pt), (''asr'', Asr pt),
                   (''maghrib'', Maghrib pt), (''isha'', Isha pt)]"
    if ok: "calc_NewPrayerTimes env (Some co) (data_NewDateComponents (time_Now env))
            \<lparr>params_Madhab = madhab,
             params_Method = fst (getCalculationMethod (CalculationMethod cfg))\<rparr> = Inr computed"
      "SetTimeZone env computed (time_Location env) = Inr pt" for computed pt
    unfolding armed [OF ok] adhanJobs_append
    by (simp add: adhanJobs_def gocron_RemoveByTag_def midnightJob_untagged)
  have failed: "scheduler ?w = scheduler w0 @ [midnightJob]"
    if "calc_NewPrayerTimes env (Some co) (data_NewDateComponents (time_Now env))
            \<lparr>params_Madhab = madhab,
             params_Method = fst (getCalculationMethod (CalculationMethod cfg))\<rparr> = Inl err"
    for err
  proof -
    have "scheduler (updatePrayerTimes env ?w4) = scheduler ?w4"
      by (rule scheduler_updatePrayerTimes_failure [where err = err]) (simp add: that)
    then show ?thesis by simp
  qed
  have failed_tz: "scheduler ?w = scheduler w0 @ [midnightJob]"
    if "calc_NewPrayerTimes env (Some co) (data_NewDateComponents (time_Now env))
            \<lparr>params_Madhab = madhab,
             params_Method = fst (getCalculationMethod (CalculationMethod cfg))\<rparr> = Inr computed"
      "SetTimeZone env computed (time_Location env) = Inl err"
    for computed err
  proof -
    have "scheduler (updatePrayerTimes env ?w4) = scheduler ?w4"
      by (rule scheduler_updatePrayerTimes_timezone_failure [where err = err and computed = computed])
        (simp_all add: that)
    then show ?thesis by simp
  qed
  have mid: "midnightJob \<in> set (scheduler ?w)"
  proof (cases "calc_NewPrayerTimes env (Some co) (data_NewDateComponents (time_Now env))
            \<lparr>params_Madhab = madhab,
             params_Method = fst (getCalculationMethod (CalculationMethod cfg))\<rparr>")
    case (Inl err)
    then show ?thesis using failed by simp
  next
    case (Inr computed)
    then show ?thesis
      using failed_tz [OF Inr] armed [OF Inr]
      by (cases "SetTimeZone env computed (time_Location env)") simp_all
  qed
  from run tr cnt mid jobs failed failed_tz show ?thesis by blast
qed

theorem main_rebuilds_once_before_StartBlocking_witness:
  "toml_DecodeFile bootEnv (configFile startWorld) (config startWorld) = (sampleConfig, None)
   \<and> util_NewCoordinates bootEnv (Lan sampleConfig) (Lon sampleConfig) =
       (Some \<lparr>Latitude = 52.52, Longitude = 13.405\<rparr>, None)
   \<and> trace startWorld = []
   \<and> (\<exists>w before. main bootEnv startWorld = Inr w
         \<and> trace w = before @ [Call_StartBlocking]
         \<and> length (filter rebuildOutcome before) = 1
         \<and> scheduler w = midnightJob # adhanJobs (scheduler w)
         \<and> length (adhanJobs (scheduler w)) = 5)"
proof -
  have load: "toml_DecodeFile bootEnv (configFile startWorld) (config startWorld) =
      (sampleConfig, None)"
    by (simp add: bootEnv_def)
  have coords: "util_NewCoordinates bootEnv (Lan sampleConfig) (Lon sampleConfig) =
      (Some \<lparr>Latitude = 52.52, Longitude = 13.405\<rparr>, None)"
    by (simp add: bootEnv_def sampleEnv_def sampleConfig_def)
  have fresh: "trace startWorld = []" and empty: "scheduler startWorld = []"
    by (simp_all add: startWorld_def)
  have calc: "calc_NewPrayerTimes bootEnv c d p = Inr samplePrayerTimes" for c d p
    by (simp add: bootEnv_def sampleEnv_def)
  have tz: "SetTimeZone bootEnv samplePrayerTimes z = Inr samplePrayerTimes" for z
    by (simp add: bootEnv_def sampleEnv_def)
  from main_rebuilds_once_before_StartBlocking [OF load coords fresh]
  obtain w before where w: "main bootEnv startWorld = Inr w"
    "trace w = before @ [Call_StartBlocking]" "length (filter rebuildOutcome before) = 1"
    and state: "w = emit [Call_StartBlocking] (updatePrayerTimes bootEnv
           \<lparr>config = sampleConfig,
            coordinates = Some \<lparr>Latitude = 52.52, Longitude = 13.405\<rparr>,
            scheduler = scheduler startWorld @ [midnightJob],
            configFile = configFile startWorld, trace = [Go_RouterRun]\<rparr>)"
    and jobs: "\<forall>computed pt.
          calc_NewPrayerTimes bootEnv (Some \<lparr>Latitude = 52.52, Longitude = 13.405\<rparr>)
            (data_NewDateComponents (time_Now bootEnv))
            \<lparr>params_Madhab = madhab,
             params_Method = fst (getCalculationMethod (CalculationMethod sampleConfig))\<rparr>
            = Inr computed
          \<longrightarrow> SetTimeZone bootEnv computed (time_Location bootEnv) = Inr pt
          \<longrightarrow> adhanJobs (scheduler w) =
                map (\<lambda>(n, t). \<lparr>jobInterval = 1, jobUnit = Days, jobRunLimit = Some 1,
                       jobAt = [Format_150405 t], jobTags = [''adhan''],
                       jobFunc = Some (AdhanFunc n t)\<rparr>)
                  [(''fajr'', Fajr pt), (''dhuhr'', Dhuhr pt), (''asr'', Asr pt),
                   (''maghrib'', Maghrib pt), (''isha'', Isha pt)]"
    by blast
  from jobs calc tz have five: "adhanJobs (scheduler w) =
                map (\<lambda>(n, t). \<lparr>jobInterval = 1, jobUnit = Days, jobRunLimit = Some 1,
                       jobAt = [Format_150405 t], jobTags = [''adhan''],
                       jobFunc = Some (AdhanFunc n t)\<rparr>)
                  [(''fajr'', Fajr samplePrayerTimes), (''dhuhr'', Dhuhr samplePrayerTimes),
                   (''asr'', Asr samplePrayerTimes), (''maghrib'', Maghrib samplePrayerTimes),
                   (''isha'', Isha samplePrayerTimes)]"
    by simp
  have "scheduler (updatePrayerTimes bootEnv
           \<lparr>config = sampleConfig,
            coordinates = Some \<lparr>Latitude = 52.52, Longitude = 13.405\<rparr>,
            scheduler = scheduler startWorld @ [midnightJob],
            configFile = configFile startWorld, trace = [Go_RouterRun]\<rparr>) =
        gocron_RemoveByTag ''adhan'' [midnightJob] @
        map (\<lambda>(n, t). \<lparr>jobInterval = 1, jobUnit = Days, jobRunLimit = Some 1,
            jobAt = [Format_150405 t], jobTags = [''adhan''], jobFunc = Some (AdhanFunc n t)\<rparr>)
          [(''fajr'', Fajr samplePrayerTimes), (''dhuhr'', Dhuhr samplePrayerTimes),
           (''asr'', Asr samplePrayerTimes), (''maghrib'', Maghrib samplePrayerTimes),
           (''isha'', Isha samplePrayerTimes)]"
    using scheduler_updatePrayerTimes_success [where env = bootEnv
        and computed = samplePrayerTimes and pt = samplePrayerTimes]
    by (simp add: calc tz empty)
  then have "scheduler w = midnightJob # adhanJobs (scheduler w)"
    unfolding five by (simp add: state gocron_RemoveByTag_def midnightJob_untagged)
  with five w load coords fresh show ?thesis by auto
qed

text \<open>
  The claim C9 as stated fails: a start with a stored latitude of 89.5, where the
  computation fails, enters the run loop after its one rebuild with the midnight job
  only, and no job of the day armed.
\<close>

theorem start_at_polar_latitude_arms_nothing:
  "main polarBootEnv startWorld =
     Inr \<lparr>config = sampleConfig\<lparr>Lan := 89.5\<rparr>,
          coordinates = Some \<lparr>Latitude = 89.5, Longitude = 13.405\<rparr>,
          scheduler = [midnightJob], configFile = Some ''stored'',
          trace = [Go_RouterRun, Log_ErrorCalculating ''no sunrise'', Call_StartBlocking]\<rparr>
   \<and> adhanJobs [midnightJob] = []"
proof -
  have load: "toml_DecodeFile polarBootEnv (configFile startWorld) (config startWorld) =
      (sampleConfig\<lparr>Lan := 89.5\<rparr>, None)"
    by (simp add: polarBootEnv_def)
  have coords: "util_NewCoordinates polarBootEnv (Lan (sampleConfig\<lparr>Lan := 89.5\<rparr>))
      (Lon (sampleConfig\<lparr>Lan := 89.5\<rparr>)) =
      (Some \<lparr>Latitude = 89.5, Longitude = 13.405\<rparr>, None)"
    by (simp add: polarBootEnv_def polarEnv_def sampleEnv_def sampleConfig_def)
  have meth: "getCalculationMethod (CalculationMethod sampleConfig) = (TURKEY, [])"
    by (simp add: getCalculationMethod_def sampleConfig_def)
  have "main polarBootEnv startWorld =
     Inr \<lparr>config = sampleConfig\<lparr>Lan := 89.5\<rparr>,
          coordinates = Some \<lparr>Latitude = 89.5, Longitude = 13.405\<rparr>,
          scheduler = [midnightJob], configFile = Some ''stored'',
          trace = [Go_RouterRun, Log_ErrorCalculating ''no sunrise'', Call_StartBlocking]\<rparr>"
    unfolding main_success [OF load coords]
    by (simp add: updatePrayerTimes_def Let_def meth emit_def startWorld_def
        polarBootEnv_def polarEnv_def)
  moreover have "adhanJobs [midnightJob] = []"
    by (simp add: adhanJobs_def midnightJob_untagged)
  ultimately show ?thesis by simp
qed

end
